theory Spec2Isabelle
  imports Complex_Main "HOL-Library.Sublist"
begin

section \<open>Python values used by the application\<close>

text \<open>
  A Python \<open>str\<close> is a sequence of Unicode code points, so text is a list of code
  points (natural numbers), not of bytes: \<open>strip\<close>, \<open>split\<close> and \<open>in\<close> then count
  what Python counts. \<open>lit\<close> turns an ASCII literal of the source into such a text.
\<close>

type_synonym pystr = "nat list"

definition lit :: "string \<Rightarrow> pystr" where
  "lit s = map of_char s"

text \<open>
  The values the widgets of \<open>main\<close> put into the dictionaries: \<open>st.slider\<close> and
  \<open>st.number_input\<close> with integer bounds return an \<open>int\<close>, \<open>st.text_area\<close>,
  \<open>st.text_input\<close> and \<open>st.selectbox\<close> a \<open>str\<close>, \<open>st.multiselect\<close> a list of \<open>str\<close>.
\<close>

datatype pyval = PInt int | PStr pystr | PList "pystr list"

text \<open>A dictionary with literal string keys, as \<open>before_data\<close>, \<open>after_data\<close>, \<open>client_info\<close>.\<close>

type_synonym pydict = "string \<rightharpoonup> pyval"

text \<open>
  Exceptions are values. Each carries what \<open>str(e)\<close> prints, apart from \<open>KeyError\<close>,
  which carries the missing key. \<open>LibraryError\<close> stands for any exception an external
  library raises (network failure of the LLM client, image export, PDF layout).
\<close>

datatype error =
    KeyError string
  | TypeError pystr
  | ValueError pystr
  | IndexError pystr
  | AttributeError pystr
  | LibraryError pystr

definition str_exc :: "error \<Rightarrow> pystr" where
  \<comment> \<open>\<open>str(e)\<close>; for a \<open>KeyError\<close> the \<open>repr\<close> of the key, which for the identifier-like
      keys of this program is the key in single quotes.\<close>
  "str_exc e = (case e of
       KeyError k \<Rightarrow> [39] @ lit k @ [39]
     | TypeError m \<Rightarrow> m
     | ValueError m \<Rightarrow> m
     | IndexError m \<Rightarrow> m
     | AttributeError m \<Rightarrow> m
     | LibraryError m \<Rightarrow> m)"

definition bindE :: "error + 'a \<Rightarrow> ('a \<Rightarrow> error + 'b) \<Rightarrow> error + 'b" where
  \<comment> \<open>Sequencing: the first exception ends the evaluation.\<close>
  "bindE r f = (case r of Inl e \<Rightarrow> Inl e | Inr v \<Rightarrow> f v)"

fun mapE :: "('a \<Rightarrow> error + 'b) \<Rightarrow> 'a list \<Rightarrow> error + 'b list" where
  \<comment> \<open>Left-to-right evaluation of a list of expressions.\<close>
  "mapE f [] = Inr []"
| "mapE f (x # xs) = bindE (f x) (\<lambda>y. bindE (mapE f xs) (\<lambda>ys. Inr (y # ys)))"

definition getitem :: "pydict \<Rightarrow> string \<Rightarrow> error + pyval" where
  \<comment> \<open>\<open>d[k]\<close>\<close>
  "getitem d k = (case d k of None \<Rightarrow> Inl (KeyError k) | Some v \<Rightarrow> Inr v)"

definition truthy :: "pyval \<Rightarrow> bool" where
  \<comment> \<open>Python's truth value: \<open>0\<close>, \<open>''\<close> and \<open>[]\<close> are false.\<close>
  "truthy v = (case v of PInt n \<Rightarrow> n \<noteq> 0 | PStr s \<Rightarrow> s \<noteq> [] | PList xs \<Rightarrow> xs \<noteq> [])"

definition truthy_opt :: "pyval option \<Rightarrow> bool" where
  \<comment> \<open>Truth value of a result that may be \<open>None\<close> (\<open>dict.get\<close>, \<open>os.getenv\<close>).\<close>
  "truthy_opt r = (case r of None \<Rightarrow> False | Some v \<Rightarrow> truthy v)"

subsection \<open>String operations\<close>

definition isspace :: "nat \<Rightarrow> bool" where
  \<comment> \<open>The code points \<open>str.strip()\<close> removes: Unicode whitespace.\<close>
  "isspace c \<longleftrightarrow>
     (9 \<le> c \<and> c \<le> 13) \<or> (28 \<le> c \<and> c \<le> 32) \<or> c = 133 \<or> c = 160 \<or> c = 5760 \<or>
     (8192 \<le> c \<and> c \<le> 8202) \<or> c = 8232 \<or> c = 8233 \<or> c = 8239 \<or> c = 8287 \<or> c = 12288"

definition strip :: "pystr \<Rightarrow> pystr" where
  \<comment> \<open>\<open>s.strip()\<close>\<close>
  "strip s = rev (dropWhile isspace (rev (dropWhile isspace s)))"

definition startswith :: "pystr \<Rightarrow> pystr \<Rightarrow> bool" where
  \<comment> \<open>\<open>s.startswith(p)\<close>\<close>
  "startswith s p = prefix p s"

definition contains :: "pystr \<Rightarrow> pystr \<Rightarrow> bool" where
  \<comment> \<open>\<open>sub in s\<close>\<close>
  "contains sub s = sublist sub s"

definition any_in :: "pystr list \<Rightarrow> pystr \<Rightarrow> bool" where
  \<comment> \<open>\<open>any(w in s for w in ws)\<close>\<close>
  "any_in ws s = list_ex (\<lambda>w. contains w s) ws"

fun split_from :: "pystr \<Rightarrow> pystr \<Rightarrow> pystr \<Rightarrow> pystr list" where
  \<comment> \<open>Scan for the separator from the left; \<open>cur\<close> is the current field, reversed.\<close>
  "split_from sep cur [] = [rev cur]"
| "split_from sep cur (c # cs) =
     (if prefix sep (c # cs) then rev cur # split_from sep [] (drop (length sep - 1) cs)
      else split_from sep (c # cur) cs)"

definition split :: "pystr \<Rightarrow> pystr \<Rightarrow> pystr list" where
  \<comment> \<open>\<open>s.split(sep)\<close> for a non-empty separator (every separator of the source is a
      non-empty literal; Python raises \<open>ValueError\<close> on an empty one).\<close>
  "split s sep = split_from sep [] s"

fun split_once :: "pystr \<Rightarrow> pystr \<Rightarrow> pystr \<Rightarrow> pystr list" where
  \<comment> \<open>\<open>s.split(sep, 1)\<close>: cut at the first separator only.\<close>
  "split_once sep cur [] = [rev cur]"
| "split_once sep cur (c # cs) =
     (if prefix sep (c # cs) then [rev cur, drop (length sep - 1) cs]
      else split_once sep (c # cur) cs)"

fun join :: "pystr \<Rightarrow> pystr list \<Rightarrow> pystr" where
  \<comment> \<open>\<open>sep.join(xs)\<close> for a list of strings\<close>
  "join sep [] = []"
| "join sep [x] = x"
| "join sep (x # y # ys) = x @ sep @ join sep (y # ys)"

definition py_join :: "pystr \<Rightarrow> pyval \<Rightarrow> error + pystr" where
  \<comment> \<open>\<open>sep.join(v)\<close>: a \<open>str\<close> is iterated character by character, an \<open>int\<close> is not
      iterable.\<close>
  "py_join sep v = (case v of
       PList xs \<Rightarrow> Inr (join sep xs)
     | PStr s \<Rightarrow> Inr (join sep (map (\<lambda>c. [c]) s))
     | PInt n \<Rightarrow> Inl (TypeError (lit ''can only join an iterable'')))"

fun str_nat :: "nat \<Rightarrow> pystr" where
  \<comment> \<open>Decimal digits of a natural number.\<close>
  "str_nat n = (if n < 10 then [48 + n] else str_nat (n div 10) @ [48 + n mod 10])"

declare str_nat.simps [simp del]

definition str_int :: "int \<Rightarrow> pystr" where
  \<comment> \<open>\<open>str(n)\<close> for an \<open>int\<close>\<close>
  "str_int n = (if n < 0 then 45 # str_nat (nat (- n)) else str_nat (nat n))"

definition format_plus_d :: "int \<Rightarrow> pystr" where
  \<comment> \<open>\<open>f"{n:+d}"\<close>: the sign always, then the decimal magnitude.\<close>
  "format_plus_d n = (if n < 0 then 45 # str_nat (nat (- n)) else 43 # str_nat (nat n))"

definition hex_digit :: "nat \<Rightarrow> nat" where
  "hex_digit d = (if d < 10 then 48 + d else 87 + d)"

fun hex_fixed :: "nat \<Rightarrow> nat \<Rightarrow> pystr" where
  \<comment> \<open>\<open>w\<close> lower-case hexadecimal digits of \<open>n\<close>\<close>
  "hex_fixed 0 n = []"
| "hex_fixed (Suc w) n = hex_fixed w (n div 16) @ [hex_digit (n mod 16)]"

definition repr_char :: "(nat \<Rightarrow> bool) \<Rightarrow> nat \<Rightarrow> nat \<Rightarrow> pystr" where
  \<comment> \<open>One character inside \<open>repr\<close> of a \<open>str\<close> quoted with \<open>q\<close>. \<open>printable\<close> is
      \<open>str.isprintable\<close> on the code points above ASCII (a table of the Unicode
      database).\<close>
  "repr_char printable q c =
     (if c = q \<or> c = 92 then [92, c]
      else if c = 9 then [92, 116]
      else if c = 10 then [92, 110]
      else if c = 13 then [92, 114]
      else if c < 32 \<or> c = 127 then [92, 120] @ hex_fixed 2 c
      else if c < 127 then [c]
      else if printable c then [c]
      else if c < 256 then [92, 120] @ hex_fixed 2 c
      else if c < 65536 then [92, 117] @ hex_fixed 4 c
      else [92, 85] @ hex_fixed 8 c)"

definition repr_str :: "(nat \<Rightarrow> bool) \<Rightarrow> pystr \<Rightarrow> pystr" where
  \<comment> \<open>\<open>repr(s)\<close>: single quotes, unless the text has a single and no double quote.\<close>
  "repr_str printable s =
     (let q = (if 39 \<in> set s \<and> 34 \<notin> set s then 34 else 39)
      in [q] @ concat (map (repr_char printable q) s) @ [q])"

definition py_str :: "(nat \<Rightarrow> bool) \<Rightarrow> pyval \<Rightarrow> pystr" where
  \<comment> \<open>\<open>str(v)\<close>, what a replacement field \<open>{v}\<close> of an f-string prints.\<close>
  "py_str printable v = (case v of
       PInt n \<Rightarrow> str_int n
     | PStr s \<Rightarrow> s
     | PList xs \<Rightarrow> [91] @ join (lit '', '') (map (repr_str printable) xs) @ [93])"

definition type_name :: "pyval \<Rightarrow> pystr" where
  "type_name v = (case v of PInt n \<Rightarrow> lit ''int'' | PStr s \<Rightarrow> lit ''str'' | PList xs \<Rightarrow> lit ''list'')"

definition py_sub :: "pyval \<Rightarrow> pyval \<Rightarrow> error + int" where
  \<comment> \<open>\<open>x - y\<close>: defined on two \<open>int\<close>s only.\<close>
  "py_sub x y = (case (x, y) of
       (PInt m, PInt n) \<Rightarrow> Inr (m - n)
     | _ \<Rightarrow> Inl (TypeError (lit ''unsupported operand type(s) for -: '' @ [39] @ type_name x @
            [39] @ lit '' and '' @ [39] @ type_name y @ [39])))"

section \<open>External libraries\<close>

text \<open>
  What the program hands to its libraries is data of the model; what the libraries
  compute is a parameter. A figure records the arguments of \<open>px.bar\<close>, a flowable the
  arguments of a reportlab constructor, a chat request the keyword arguments of
  \<open>chat.completions.create\<close>.
\<close>

type_synonym bytes = "nat list"

record dataframe =
  df_index :: "pystr list"
  df_columns :: "pystr list"
  df_values :: "pyval list list"

definition DataFrame :: "(pystr \<times> pyval list) list \<Rightarrow> pystr list \<Rightarrow> dataframe" where
  \<comment> \<open>\<open>pd.DataFrame(d, index=idx)\<close> for a dictionary of equally long columns: one
      column per key, one row per index label.\<close>
  "DataFrame d idx = \<lparr>df_index = idx, df_columns = map fst d, df_values = transpose (map snd d)\<rparr>"

definition df_transpose :: "dataframe \<Rightarrow> dataframe" where
  \<comment> \<open>\<open>df.transpose()\<close>\<close>
  "df_transpose df =
     \<lparr>df_index = df_columns df, df_columns = df_index df, df_values = transpose (df_values df)\<rparr>"

record figure =
  fig_frame :: dataframe
  barmode :: pystr
  title :: pystr

definition px_bar :: "dataframe \<Rightarrow> pystr \<Rightarrow> pystr \<Rightarrow> figure" where
  \<comment> \<open>\<open>px.bar(df, barmode=..., title=...)\<close>\<close>
  "px_bar df mode t = \<lparr>fig_frame = df, barmode = mode, title = t\<rparr>"

datatype style = CustomTitle | CustomHeading2 | CustomBody | CustomDayHeader

text \<open>
  The three literal \<open>TableStyle\<close> command lists of the source: the one of the two
  summary tables of \<open>create_pdf\<close>, the one of the profile table and the one of the
  meal tables of \<open>create_diet_pdf\<close>.
\<close>

datatype table_style = SummaryTableStyle | ProfileTableStyle | MealTableStyle

datatype flowable =
    Paragraph pystr style
  | Spacer nat nat
  | Table "pyval list list" "nat list" table_style
  | Image bytes nat nat

datatype pagesize = Letter | LandscapeLetter

record doc_template =
  page :: pagesize
  rightMargin :: nat
  leftMargin :: nat
  topMargin :: nat
  bottomMargin :: nat

record chat_request =
  messages :: "(pystr \<times> pystr) list"
  model :: pystr
  temperature :: real
  max_tokens :: int
  top_p :: real
  stream :: bool

record choice =
  message_content :: pystr

record chat_response =
  choices :: "choice list"

datatype client = Groq pyval

record library =
  isprintable :: "nat \<Rightarrow> bool"
  isdigit :: "nat \<Rightarrow> bool"
  chat_completions_create :: "client \<Rightarrow> chat_request \<Rightarrow> error + chat_response"
  markup_error :: "pystr \<Rightarrow> error option"
  to_image :: "figure \<Rightarrow> error + bytes"
  doc_build :: "doc_template \<Rightarrow> flowable list \<Rightarrow> error + bytes"
  report_date :: pystr
  file_date :: pystr

text \<open>
  \<open>isprintable\<close> and \<open>isdigit\<close> are \<open>str.isprintable\<close> and \<open>str.isdigit\<close> on one
  code point; \<open>markup_error\<close> is the exception, if any, with which reportlab's
  \<open>Paragraph(s, style)\<close> rejects the markup of \<open>s\<close>; \<open>to_image\<close> is
  \<open>pio.to_image(fig, format="png", width=800, height=400, scale=2)\<close>; \<open>doc_build\<close> is \<open>doc.build(story)\<close> followed by reading the buffer;
  \<open>report_date\<close> is \<open>datetime.now().strftime('%B %d, %Y')\<close> and \<open>file_date\<close> is
  \<open>datetime.now().strftime('%Y%m%d')\<close>.
\<close>

definition new_paragraph :: "library \<Rightarrow> pystr \<Rightarrow> style \<Rightarrow> error + flowable" where
  \<comment> \<open>\<open>Paragraph(s, styles[name])\<close>\<close>
  "new_paragraph lib s sty =
     (case markup_error lib s of Some e \<Rightarrow> Inl e | None \<Rightarrow> Inr (Paragraph s sty))"

section \<open>The diet plan document: \<open>create_diet_pdf\<close>\<close>

definition day_names :: "pystr list" where
  "day_names = map lit [''Monday'', ''Tuesday'', ''Wednesday'', ''Thursday'', ''Friday'',
     ''Saturday'', ''Sunday'']"

definition meal_names :: "pystr list" where
  "meal_names = map lit [''Breakfast'', ''Morning Snack'', ''Lunch'', ''Afternoon Snack'',
     ''Dinner'']"

text \<open>The three locals the inner loop fills: \<open>details\<close>, \<open>nutrients\<close>, \<open>prep_time\<close>.\<close>

type_synonym meal_acc = "pystr list \<times> pystr list \<times> pystr"

definition meal_line :: "pystr \<Rightarrow> meal_acc \<Rightarrow> error + meal_acc" where
  \<comment> \<open>The \<open>if\<close>/\<open>elif\<close> chain of the inner loop on one stripped line.\<close>
  "meal_line line acc = (case acc of (details, nutrients, prep_time) \<Rightarrow>
     if startswith line (lit ''Main:'') \<or> startswith line (lit ''Alternative:'')
       then Inr (details @ [line], nutrients, prep_time)
     else if list_ex (startswith line) (map lit [''Calories:'', ''Protein:'', ''Carbs:'', ''Fat:''])
       then Inr (details, nutrients @ [line], prep_time)
     else if startswith line (lit ''Prep Time:'')
       then (case split line (lit '':'') of
               a # b # rest \<Rightarrow> Inr (details, nutrients, strip b)
             | _ \<Rightarrow> Inl (IndexError (lit ''list index out of range'')))
     else Inr acc)"

function collect_meal :: "pystr list \<Rightarrow> nat \<Rightarrow> meal_acc \<Rightarrow> error + (nat \<times> meal_acc)" where
  \<comment> \<open>The inner \<open>while\<close> loop: from line \<open>i\<close> up to the next line naming a meal, a blank
      line or the end.\<close>
  "collect_meal lines i acc =
     (if i < length lines \<and> \<not> any_in meal_names (lines ! i) then
        (case meal_line (strip (lines ! i)) acc of
           Inl e \<Rightarrow> Inl e
         | Inr acc' \<Rightarrow>
             if i + 1 \<ge> length lines \<or> strip (lines ! i) = [] then Inr (i + 1, acc')
             else collect_meal lines (i + 1) acc')
      else Inr (i, acc))"
  by pat_completeness auto
termination
  by (relation "measure (\<lambda>(lines, i, acc). length lines - i)") auto

declare collect_meal.simps [simp del]

definition meal_header :: "pystr list" where
  "meal_header = map lit [''Meal Time'', ''Details'', ''Nutrients'', ''Prep Time'']"

definition meal_table :: "pystr list list \<Rightarrow> flowable" where
  "meal_table meal_data = Table (map (map PStr) meal_data) [120, 300, 200, 80] MealTableStyle"

definition has_rows :: "pystr list list option \<Rightarrow> bool" where
  \<comment> \<open>\<open>meal_data and len(meal_data) > 1\<close>\<close>
  "has_rows meal_data = (case meal_data of None \<Rightarrow> False | Some rows \<Rightarrow> rows \<noteq> [] \<and> length rows > 1)"

definition none_append :: error where
  \<comment> \<open>\<open>meal_data.append\<close> while \<open>meal_data\<close> is still \<open>None\<close>\<close>
  "none_append = AttributeError ([39] @ lit ''NoneType'' @ [39] @
     lit '' object has no attribute '' @ [39] @ lit ''append'' @ [39])"

partial_function (option) parse_plan ::
  "library \<Rightarrow> pystr list \<Rightarrow> nat \<Rightarrow> flowable list \<Rightarrow> pystr list list option \<Rightarrow>
     (error + flowable list \<times> pystr list list option) option" where
  \<comment> \<open>The outer \<open>while i < len(lines)\<close> loop over the lines of the plan, on the state
      \<open>i\<close>, \<open>story\<close>, \<open>meal_data\<close>. \<open>None\<close>: the loop does not end.\<close>
  "parse_plan lib lines i story meal_data =
     (if i < length lines then
        (let line = strip (lines ! i) in
         if line = [] then parse_plan lib lines (i + 1) story meal_data
         else if any_in day_names line then
           (case new_paragraph lib line CustomDayHeader of
              Inl e \<Rightarrow> Some (Inl e)
            | Inr day_header \<Rightarrow>
                parse_plan lib lines (i + 1)
                  ((if has_rows meal_data then story @ [meal_table (the meal_data), Spacer 1 15]
                    else story) @ [day_header])
                  (Some [meal_header]))
         else if any_in meal_names line then
           (case collect_meal lines i ([], [], []) of
              Inl e \<Rightarrow> Some (Inl e)
            | Inr (i', details, nutrients, prep_time) \<Rightarrow>
                if details \<noteq> [] \<and> nutrients \<noteq> [] then
                  (case meal_data of
                     None \<Rightarrow> Some (Inl none_append)
                   | Some rows \<Rightarrow>
                       parse_plan lib lines i' story
                         (Some (rows @ [[line, join [10] details, join [10] nutrients, prep_time]])))
                else parse_plan lib lines i' story meal_data)
         else parse_plan lib lines (i + 1) story meal_data)
      else Some (Inr (story, meal_data)))"

definition diet_doc :: doc_template where
  "diet_doc = \<lparr>page = LandscapeLetter, rightMargin = 30, leftMargin = 30, topMargin = 30,
     bottomMargin = 30\<rparr>"

definition profile_data :: "library \<Rightarrow> pydict \<Rightarrow> error + pyval list list" where
  "profile_data lib client_info =
     bindE (getitem client_info ''height'') (\<lambda>height.
     bindE (getitem client_info ''weight'') (\<lambda>weight.
     bindE (getitem client_info ''dietary_restrictions'') (\<lambda>dietary_restrictions.
     bindE (py_join (lit '', '') dietary_restrictions) (\<lambda>restrictions.
     bindE (getitem client_info ''health_goals'') (\<lambda>health_goals.
     bindE (py_join (lit '', '') health_goals) (\<lambda>goals.
     bindE (getitem client_info ''food_allergies'') (\<lambda>food_allergies.
     Inr [[PStr (lit ''Client Profile''), PStr []],
          [PStr (lit ''Height''), PStr (py_str (isprintable lib) height @ lit '' cm'')],
          [PStr (lit ''Weight''), PStr (py_str (isprintable lib) weight @ lit '' kg'')],
          [PStr (lit ''Dietary Restrictions''), PStr restrictions],
          [PStr (lit ''Health Goals''), PStr goals],
          [PStr (lit ''Food Allergies''), food_allergies]])))))))"

definition diet_title :: "library \<Rightarrow> pydict \<Rightarrow> error + flowable list" where
  \<comment> \<open>The story of \<open>create_diet_pdf\<close> before the plan is read: title and profile table.\<close>
  "diet_title lib client_info =
     bindE (new_paragraph lib (lit ''7-Day Meal Plan'') CustomTitle) (\<lambda>p1.
     bindE (getitem client_info ''name'') (\<lambda>name.
     bindE (new_paragraph lib (lit ''for '' @ py_str (isprintable lib) name) CustomTitle) (\<lambda>p2.
     bindE (profile_data lib client_info) (\<lambda>profile.
     Inr [p1, p2, Spacer 1 20, Table profile [200, 300] ProfileTableStyle, Spacer 1 30]))))"

definition create_diet_pdf :: "library \<Rightarrow> pydict \<Rightarrow> pystr \<Rightarrow> (error + bytes) option" where
  \<comment> \<open>\<open>None\<close>: the call does not return.\<close>
  "create_diet_pdf lib client_info dietary_plan =
     (case diet_title lib client_info of
        Inl e \<Rightarrow> Some (Inl e)
      | Inr story \<Rightarrow>
          (case parse_plan lib (split dietary_plan [10]) 0 story None of
             None \<Rightarrow> None
           | Some (Inl e) \<Rightarrow> Some (Inl e)
           | Some (Inr (story', meal_data)) \<Rightarrow>
               Some (doc_build lib diet_doc
                 (if has_rows meal_data then story' @ [meal_table (the meal_data)] else story'))))"

definition stuck_line :: "pystr \<Rightarrow> bool" where
  \<comment> \<open>A line the outer loop takes for a meal entry: it names a meal and no day.\<close>
  "stuck_line l = (any_in meal_names (strip l) \<and> \<not> any_in day_names (strip l))"

section \<open>The comparison charts: \<open>create_comparison_charts\<close>\<close>

text \<open>
  The two dictionary displays, entry by entry: the chart label and the key read from
  \<open>before_data\<close> and from \<open>after_data\<close>.
\<close>

definition physical_fields :: "(string \<times> string) list" where
  "physical_fields =
     [(''Flexibility'', ''flexibility''),
      (''Strength'', ''strength''),
      (''Balance'', ''balance''),
      (''Pain Level'', ''pain''),
      (''Posture'', ''posture''),
      (''Breathing'', ''breathing''),
      (''Spine'', ''spine''),
      (''Hips'', ''hips''),
      (''Shoulders'', ''shoulders''),
      (''Core'', ''core'')]"

definition mental_fields :: "(string \<times> string) list" where
  "mental_fields =
     [(''Stress'', ''stress''),
      (''Energy'', ''energy''),
      (''Focus'', ''focus''),
      (''Sleep'', ''sleep''),
      (''Anxiety'', ''anxiety''),
      (''Mood'', ''mood''),
      (''Mindfulness'', ''mindfulness'')]"

definition metric_entry :: "pydict \<Rightarrow> pydict \<Rightarrow> string \<times> string \<Rightarrow> error + pystr \<times> pyval list" where
  \<comment> \<open>\<open>'Label': [before_data[k], after_data[k]]\<close>\<close>
  "metric_entry before_data after_data f = (case f of (label, k) \<Rightarrow>
     bindE (getitem before_data k) (\<lambda>b.
     bindE (getitem after_data k) (\<lambda>a.
     Inr (lit label, [b, a]))))"

definition physical_metrics :: "pydict \<Rightarrow> pydict \<Rightarrow> error + (pystr \<times> pyval list) list" where
  "physical_metrics before_data after_data = mapE (metric_entry before_data after_data) physical_fields"

definition mental_metrics :: "pydict \<Rightarrow> pydict \<Rightarrow> error + (pystr \<times> pyval list) list" where
  "mental_metrics before_data after_data = mapE (metric_entry before_data after_data) mental_fields"

definition create_comparison_charts :: "pydict \<Rightarrow> pydict \<Rightarrow> error + figure \<times> figure" where
  "create_comparison_charts before_data after_data =
     bindE (physical_metrics before_data after_data) (\<lambda>physical.
     bindE (mental_metrics before_data after_data) (\<lambda>mental.
       let physical_df = df_transpose (DataFrame physical [lit ''Before'', lit ''After'']);
           mental_df = df_transpose (DataFrame mental [lit ''Before'', lit ''After'']);
           fig1 = px_bar physical_df (lit ''group'') (lit ''Physical Metrics Comparison'');
           fig2 = px_bar mental_df (lit ''group'') (lit ''Mental & Emotional Metrics Comparison'')
       in Inr (fig1, fig2)))"

section \<open>The prompts: \<open>generate_analysis\<close> and \<open>generate_dietary_plan\<close>\<close>

text \<open>
  An f-string is a sequence of literal text and replacement fields, evaluated from left
  to right. The replacement fields of the two prompts have two shapes: \<open>{d['k']}\<close> and
  \<open>{', '.join(d['k'])}\<close>, with \<open>d\<close> one of \<open>client_info\<close>, \<open>before_data\<close>, \<open>after_data\<close>.
\<close>

datatype source = Client | Before | After

datatype piece = Lit pystr | Field source string | Joined source string

definition eval_piece :: "(nat \<Rightarrow> bool) \<Rightarrow> (source \<Rightarrow> pydict) \<Rightarrow> piece \<Rightarrow> error + pystr" where
  "eval_piece printable dicts p = (case p of
       Lit s \<Rightarrow> Inr s
     | Field src k \<Rightarrow> bindE (getitem (dicts src) k) (\<lambda>v. Inr (py_str printable v))
     | Joined src k \<Rightarrow> bindE (getitem (dicts src) k) (py_join (lit '', '')))"

definition fstring :: "(nat \<Rightarrow> bool) \<Rightarrow> (source \<Rightarrow> pydict) \<Rightarrow> piece list \<Rightarrow> error + pystr" where
  "fstring printable dicts ps = bindE (mapE (eval_piece printable dicts) ps) (\<lambda>ss. Inr (concat ss))"

definition arguments :: "pydict \<Rightarrow> pydict \<Rightarrow> pydict \<Rightarrow> source \<Rightarrow> pydict" where
  "arguments client_info before_data after_data src =
     (case src of Client \<Rightarrow> client_info | Before \<Rightarrow> before_data | After \<Rightarrow> after_data)"

definition analysis_template :: "piece list" where
  \<comment> \<open>The f-string \<open>prompt\<close> of \<open>generate_analysis\<close>.\<close>
  "analysis_template =
    [Lit (lit ''\<newline>''),
     Lit (lit ''    As an expert yoga trainer and wellness analyst, provide a detailed progress analysis for:\<newline>''),
     Lit (lit ''    \<newline>''),
     Lit (lit ''    CLIENT PROFILE:\<newline>''),
     Lit (lit ''    Name: ''),
     Field Client ''name'',
     Lit (lit ''\<newline>''),
     Lit (lit ''    Age: ''),
     Field Client ''age'',
     Lit (lit ''\<newline>''),
     Lit (lit ''    Occupation: ''),
     Field Client ''occupation'',
     Lit (lit ''\<newline>''),
     Lit (lit ''    Previous Yoga Experience: ''),
     Field Client ''previous_yoga_experience'',
     Lit (lit ''\<newline>''),
     Lit (lit ''    Primary Goals: ''),
     Joined Client ''primary_goals'',
     Lit (lit ''\<newline>''),
     Lit (lit ''    \<newline>''),
     Lit (lit ''    COMPREHENSIVE ASSESSMENT COMPARISON:\<newline>''),
     Lit (lit ''    \<newline>''),
     Lit (lit ''    1. PHYSICAL METRICS ANALYSIS:\<newline>''),
     Lit (lit ''    \<newline>''),
     Lit (lit ''    Basic Metrics:\<newline>''),
     Lit (lit ''    Flexibility: Before ''),
     Field Before ''flexibility'',
     Lit (lit ''/10 '' @ [8594] @ lit '' After ''),
     Field After ''flexibility'',
     Lit (lit ''/10\<newline>''),
     Lit (lit ''    Strength: Before ''),
     Field Before ''strength'',
     Lit (lit ''/10 '' @ [8594] @ lit '' After ''),
     Field After ''strength'',
     Lit (lit ''/10\<newline>''),
     Lit (lit ''    Balance: Before ''),
     Field Before ''balance'',
     Lit (lit ''/10 '' @ [8594] @ lit '' After ''),
     Field After ''balance'',
     Lit (lit ''/10\<newline>''),
     Lit (lit ''    Pain Levels: Before ''),
     Field Before ''pain'',
     Lit (lit ''/10 '' @ [8594] @ lit '' After ''),
     Field After ''pain'',
     Lit (lit ''/10\<newline>''),
     Lit (lit ''    \<newline>''),
     Lit (lit ''    Detailed Physical Assessment:\<newline>''),
     Lit (lit ''    Posture: Before ''),
     Field Before ''posture'',
     Lit (lit ''/10 '' @ [8594] @ lit '' After ''),
     Field After ''posture'',
     Lit (lit ''/10\<newline>''),
     Lit (lit ''    Breathing: Before ''),
     Field Before ''breathing'',
     Lit (lit ''/10 '' @ [8594] @ lit '' After ''),
     Field After ''breathing'',
     Lit (lit ''/10\<newline>''),
     Lit (lit ''    Spine Flexibility: Before ''),
     Field Before ''spine'',
     Lit (lit ''/10 '' @ [8594] @ lit '' After ''),
     Field After ''spine'',
     Lit (lit ''/10\<newline>''),
     Lit (lit ''    Hip Mobility: Before ''),
     Field Before ''hips'',
     Lit (lit ''/10 '' @ [8594] @ lit '' After ''),
     Field After ''hips'',
     Lit (lit ''/10\<newline>''),
     Lit (lit ''    Shoulder Mobility: Before ''),
     Field Before ''shoulders'',
     Lit (lit ''/10 '' @ [8594] @ lit '' After ''),
     Field After ''shoulders'',
     Lit (lit ''/10\<newline>''),
     Lit (lit ''    Core Strength: Before ''),
     Field Before ''core'',
     Lit (lit ''/10 '' @ [8594] @ lit '' After ''),
     Field After ''core'',
     Lit (lit ''/10\<newline>''),
     Lit (lit ''    \<newline>''),
     Lit (lit ''    2. MENTAL & EMOTIONAL METRICS:\<newline>''),
     Lit (lit ''    \<newline>''),
     Lit (lit ''    Stress Levels: Before ''),
     Field Before ''stress'',
     Lit (lit ''/10 '' @ [8594] @ lit '' After ''),
     Field After ''stress'',
     Lit (lit ''/10\<newline>''),
     Lit (lit ''    Energy Levels: Before ''),
     Field Before ''energy'',
     Lit (lit ''/10 '' @ [8594] @ lit '' After ''),
     Field After ''energy'',
     Lit (lit ''/10\<newline>''),
     Lit (lit ''    Focus & Clarity: Before ''),
     Field Before ''focus'',
     Lit (lit ''/10 '' @ [8594] @ lit '' After ''),
     Field After ''focus'',
     Lit (lit ''/10\<newline>''),
     Lit (lit ''    Sleep Quality: Before ''),
     Field Before ''sleep'',
     Lit (lit ''/10 '' @ [8594] @ lit '' After ''),
     Field After ''sleep'',
     Lit (lit ''/10\<newline>''),
     Lit (lit ''    Anxiety Levels: Before ''),
     Field Before ''anxiety'',
     Lit (lit ''/10 '' @ [8594] @ lit '' After ''),
     Field After ''anxiety'',
     Lit (lit ''/10\<newline>''),
     Lit (lit ''    Overall Mood: Before ''),
     Field Before ''mood'',
     Lit (lit ''/10 '' @ [8594] @ lit '' After ''),
     Field After ''mood'',
     Lit (lit ''/10\<newline>''),
     Lit (lit ''    Mindfulness: Before ''),
     Field Before ''mindfulness'',
     Lit (lit ''/10 '' @ [8594] @ lit '' After ''),
     Field After ''mindfulness'',
     Lit (lit ''/10\<newline>''),
     Lit (lit ''    \<newline>''),
     Lit (lit ''    Lifestyle Factors:\<newline>''),
     Lit (lit ''    - Work Activity Level: ''),
     Field Client ''work_activity_level'',
     Lit (lit ''\<newline>''),
     Lit (lit ''    - Exercise Routine: ''),
     Field Client ''exercise_routine'',
     Lit (lit ''\<newline>''),
     Lit (lit ''    - Sleep Hours: ''),
     Field Client ''sleep_hours'',
     Lit (lit ''\<newline>''),
     Lit (lit ''    - Diet Type: ''),
     Field Client ''diet_type'',
     Lit (lit ''\<newline>''),
     Lit (lit ''    - Stress Sources: ''),
     Joined Client ''stress_sources'',
     Lit (lit ''\<newline>''),
     Lit (lit ''    \<newline>''),
     Lit (lit ''    Initial Limitations/Symptoms:\<newline>''),
     Lit (lit ''    ''),
     Field Before ''limitations'',
     Lit (lit ''\<newline>''),
     Lit (lit ''    ''),
     Field Before ''symptoms'',
     Lit (lit ''\<newline>''),
     Lit (lit ''    \<newline>''),
     Lit (lit ''    Current Notes:\<newline>''),
     Lit (lit ''    Before: ''),
     Field Before ''notes'',
     Lit (lit ''\<newline>''),
     Lit (lit ''    After: ''),
     Field After ''notes'',
     Lit (lit ''\<newline>''),
     Lit (lit ''    \<newline>''),
     Lit (lit ''    Please provide a detailed analysis with the following sections:\<newline>''),
     Lit (lit ''\<newline>''),
     Lit (lit ''    1. EXECUTIVE SUMMARY\<newline>''),
     Lit (lit ''    Provide a concise overview of the client's overall progress and key achievements.\<newline>''),
     Lit (lit ''\<newline>''),
     Lit (lit ''    2. PHYSICAL PROGRESS ANALYSIS\<newline>''),
     Lit (lit ''    - Detailed analysis of improvements in all physical metrics\<newline>''),
     Lit (lit ''    - Specific areas of notable improvement\<newline>''),
     Lit (lit ''    - Areas requiring continued attention\<newline>''),
     Lit (lit ''    \<newline>''),
     Lit (lit ''    3. MENTAL & EMOTIONAL WELLNESS PROGRESS\<newline>''),
     Lit (lit ''    - Comprehensive analysis of mental and emotional improvements\<newline>''),
     Lit (lit ''    - Impact on daily life and wellbeing\<newline>''),
     Lit (lit ''    - Notable behavioral changes\<newline>''),
     Lit (lit ''    \<newline>''),
     Lit (lit ''    4. KEY ACHIEVEMENTS\<newline>''),
     Lit (lit ''    List the top 3-5 most significant improvements observed.\<newline>''),
     Lit (lit ''    \<newline>''),
     Lit (lit ''    5. AREAS FOR FOCUS\<newline>''),
     Lit (lit ''    Identify 2-3 specific areas that need continued attention and work.\<newline>''),
     Lit (lit ''    \<newline>''),
     Lit (lit ''    6. PERSONALIZED RECOMMENDATIONS\<newline>''),
     Lit (lit ''    Provide 4-5 specific, actionable recommendations for:\<newline>''),
     Lit (lit ''    - Poses or exercises to practice\<newline>''),
     Lit (lit ''    - Lifestyle adjustments\<newline>''),
     Lit (lit ''    - Mental wellness practices\<newline>''),
     Lit (lit ''    - Sleep hygiene improvements (if applicable)\<newline>''),
     Lit (lit ''    \<newline>''),
     Lit (lit ''    7. LONG-TERM OUTLOOK\<newline>''),
     Lit (lit ''    - Projected benefits if current progress continues\<newline>''),
     Lit (lit ''    - Potential milestones to work towards\<newline>''),
     Lit (lit ''    - Timeline expectations\<newline>''),
     Lit (lit ''    \<newline>''),
     Lit (lit ''    8. MOTIVATIONAL INSIGHTS\<newline>''),
     Lit (lit ''    End with a personalized motivational message that:\<newline>''),
     Lit (lit ''    - Acknowledges their progress\<newline>''),
     Lit (lit ''    - Encourages continued dedication\<newline>''),
     Lit (lit ''    - Highlights their potential for further growth\<newline>''),
     Lit (lit ''\<newline>''),
     Lit (lit ''    Please format the response clearly with headers and bullet points where appropriate.\<newline>''),
     Lit (lit ''    Focus on being specific, actionable, and encouraging while maintaining a professional tone.\<newline>''),
     Lit (lit ''    '')]"

definition dietary_template :: "piece list" where
  \<comment> \<open>The f-string \<open>prompt\<close> of \<open>generate_dietary_plan\<close>.\<close>
  "dietary_template =
    [Lit (lit ''\<newline>''),
     Lit (lit ''    As a professional nutritionist, create a detailed 7-day meal plan for:\<newline>''),
     Lit (lit ''\<newline>''),
     Lit (lit ''    CLIENT PROFILE:\<newline>''),
     Lit (lit ''    Name: ''),
     Field Client ''name'',
     Lit (lit ''\<newline>''),
     Lit (lit ''    Height: ''),
     Field Client ''height'',
     Lit (lit '' cm\<newline>''),
     Lit (lit ''    Weight: ''),
     Field Client ''weight'',
     Lit (lit '' kg\<newline>''),
     Lit (lit ''    Dietary Restrictions: ''),
     Field Client ''dietary_restrictions'',
     Lit (lit ''\<newline>''),
     Lit (lit ''    Health Goals: ''),
     Joined Client ''health_goals'',
     Lit (lit ''\<newline>''),
     Lit (lit ''    Food Allergies: ''),
     Field Client ''food_allergies'',
     Lit (lit ''\<newline>''),
     Lit (lit ''    Exercise Level: ''),
     Field Client ''exercise_routine'',
     Lit (lit ''\<newline>''),
     Lit (lit ''\<newline>''),
     Lit (lit ''    Please provide a COMPLETE 7-day meal plan following this EXACT format for each day:\<newline>''),
     Lit (lit ''\<newline>''),
     Lit (lit ''    [DAY]\<newline>''),
     Lit (lit ''    Breakfast (7:00 AM)\<newline>''),
     Lit (lit ''    Main: [Provide specific meal with portions]\<newline>''),
     Lit (lit ''    Alternative: [Provide specific alternative meal]\<newline>''),
     Lit (lit ''    Calories: [Exact number]\<newline>''),
     Lit (lit ''    Protein: [X]g\<newline>''),
     Lit (lit ''    Carbs: [X]g\<newline>''),
     Lit (lit ''    Fat: [X]g\<newline>''),
     Lit (lit ''    Prep Time: [X] mins\<newline>''),
     Lit (lit ''\<newline>''),
     Lit (lit ''    Morning Snack (10:00 AM)\<newline>''),
     Lit (lit ''    [Same format as breakfast]\<newline>''),
     Lit (lit ''\<newline>''),
     Lit (lit ''    Lunch (12:30 PM)\<newline>''),
     Lit (lit ''    [Same format as breakfast]\<newline>''),
     Lit (lit ''\<newline>''),
     Lit (lit ''    Afternoon Snack (3:30 PM)\<newline>''),
     Lit (lit ''    [Same format as breakfast]\<newline>''),
     Lit (lit ''\<newline>''),
     Lit (lit ''    Dinner (7:00 PM)\<newline>''),
     Lit (lit ''    [Same format as breakfast]\<newline>''),
     Lit (lit ''\<newline>''),
     Lit (lit ''    IMPORTANT REQUIREMENTS:\<newline>''),
     Lit (lit ''    1. Provide SPECIFIC meal descriptions with portions\<newline>''),
     Lit (lit ''    2. Include EXACT nutrient values\<newline>''),
     Lit (lit ''    3. Consider client's dietary restrictions and allergies\<newline>''),
     Lit (lit ''    4. Keep total daily calories appropriate for their goals\<newline>''),
     Lit (lit ''    5. Include realistic prep times\<newline>''),
     Lit (lit ''    6. Ensure meals are practical and easy to prepare\<newline>''),
     Lit (lit ''    7. Provide realistic alternatives for each meal\<newline>''),
     Lit (lit ''\<newline>''),
     Lit (lit ''    Please maintain this exact format for all 7 days.\<newline>''),
     Lit (lit ''    '')]"

definition analysis_prompt :: "library \<Rightarrow> pydict \<Rightarrow> pydict \<Rightarrow> pydict \<Rightarrow> error + pystr" where
  "analysis_prompt lib before_data after_data client_info =
     fstring (isprintable lib) (arguments client_info before_data after_data) analysis_template"

definition dietary_prompt :: "library \<Rightarrow> pydict \<Rightarrow> pydict \<Rightarrow> pydict \<Rightarrow> error + pystr" where
  "dietary_prompt lib client_info before_data after_data =
     fstring (isprintable lib) (arguments client_info before_data after_data) dietary_template"

definition completion_request :: "pystr \<Rightarrow> chat_request" where
  \<comment> \<open>The keyword arguments both functions pass to \<open>chat.completions.create\<close>.\<close>
  "completion_request prompt =
     \<lparr>messages = [(lit ''user'', prompt)],
      model = lit ''meta-llama/llama-4-maverick-17b-128e-instruct'',
      temperature = 0.7,
      max_tokens = 3000,
      top_p = 0.95,
      stream = False\<rparr>"

definition first_content :: "chat_response \<Rightarrow> error + pystr" where
  \<comment> \<open>\<open>response.choices[0].message.content\<close>\<close>
  "first_content response = (case choices response of
       [] \<Rightarrow> Inl (IndexError (lit ''list index out of range''))
     | c # cs \<Rightarrow> Inr (message_content c))"

definition send_prompt ::
  "library \<Rightarrow> client \<Rightarrow> error + pystr \<Rightarrow> chat_request list \<Rightarrow> (error + pystr) \<times> chat_request list" where
  \<comment> \<open>Once the prompt is built: the call, recorded in the list of requests sent, and the
      reading of its response.\<close>
  "send_prompt lib groq_client prompt sent = (case prompt of
       Inl e \<Rightarrow> (Inl e, sent)
     | Inr p \<Rightarrow>
         (bindE (chat_completions_create lib groq_client (completion_request p)) first_content,
          sent @ [completion_request p]))"

definition generate_analysis ::
  "library \<Rightarrow> client \<Rightarrow> pydict \<Rightarrow> pydict \<Rightarrow> pydict \<Rightarrow> chat_request list \<Rightarrow>
     (error + pystr) \<times> chat_request list" where
  "generate_analysis lib groq_client before_data after_data client_info sent =
     send_prompt lib groq_client (analysis_prompt lib before_data after_data client_info) sent"

definition generate_dietary_plan ::
  "library \<Rightarrow> client \<Rightarrow> pydict \<Rightarrow> pydict \<Rightarrow> pydict \<Rightarrow> chat_request list \<Rightarrow>
     (error + pystr) \<times> chat_request list" where
  "generate_dietary_plan lib groq_client client_info before_data after_data sent =
     send_prompt lib groq_client (dietary_prompt lib client_info before_data after_data) sent"

section \<open>The progress report: \<open>create_pdf\<close>\<close>

definition progress_doc :: doc_template where
  "progress_doc = \<lparr>page = Letter, rightMargin = 50, leftMargin = 50, topMargin = 50,
     bottomMargin = 50\<rparr>"

definition chart_block :: "library \<Rightarrow> figure \<times> pystr \<Rightarrow> error + flowable list" where
  \<comment> \<open>The body of the \<open>for fig, title in [...]\<close> loop. The image is drawn 7 inch wide and
      4 inch high (in points).\<close>
  "chart_block lib ft = (case ft of (fig, t) \<Rightarrow>
     bindE (new_paragraph lib t CustomBody) (\<lambda>p.
     bindE (to_image lib fig) (\<lambda>img_bytes.
     Inr [p, Image img_bytes 504 288, Spacer 1 20])))"

definition summary_header :: "pyval list" where
  "summary_header = map (PStr \<circ> lit) [''Metric'', ''Before'', ''After'', ''Change'']"

definition summary_row :: "library \<Rightarrow> pydict \<Rightarrow> pydict \<Rightarrow> string \<times> string \<Rightarrow> error + pyval list" where
  \<comment> \<open>\<open>['Label', f"{before_data[k]}/10", f"{after_data[k]}/10",
      f"{after_data[k] - before_data[k]:+d}"]\<close>\<close>
  "summary_row lib before_data after_data f = (case f of (label, k) \<Rightarrow>
     bindE (getitem before_data k) (\<lambda>b.
     bindE (getitem after_data k) (\<lambda>a.
     bindE (py_sub a b) (\<lambda>change.
     Inr [PStr (lit label),
          PStr (py_str (isprintable lib) b @ lit ''/10''),
          PStr (py_str (isprintable lib) a @ lit ''/10''),
          PStr (format_plus_d change)]))))"

definition physical_rows :: "(string \<times> string) list" where
  \<comment> \<open>The rows of \<open>physical_data\<close>: label and key.\<close>
  "physical_rows =
     [(''Flexibility'', ''flexibility''),
      (''Strength'', ''strength''),
      (''Balance'', ''balance''),
      (''Posture'', ''posture''),
      (''Core Strength'', ''core'')]"

definition mental_rows :: "(string \<times> string) list" where
  \<comment> \<open>The rows of \<open>mental_data\<close>: label and key.\<close>
  "mental_rows =
     [(''Stress'', ''stress''),
      (''Energy'', ''energy''),
      (''Focus'', ''focus''),
      (''Sleep'', ''sleep''),
      (''Mindfulness'', ''mindfulness'')]"

definition physical_data :: "library \<Rightarrow> pydict \<Rightarrow> pydict \<Rightarrow> error + pyval list list" where
  "physical_data lib before_data after_data =
     bindE (mapE (summary_row lib before_data after_data) physical_rows) (\<lambda>rows.
     Inr (summary_header # rows))"

definition mental_data :: "library \<Rightarrow> pydict \<Rightarrow> pydict \<Rightarrow> error + pyval list list" where
  "mental_data lib before_data after_data =
     bindE (mapE (summary_row lib before_data after_data) mental_rows) (\<lambda>rows.
     Inr (summary_header # rows))"

definition summary_table :: "pyval list list \<Rightarrow> flowable" where
  "summary_table rows = Table rows [120, 80, 80, 80] SummaryTableStyle"

definition section_block :: "library \<Rightarrow> pystr \<Rightarrow> error + flowable list" where
  \<comment> \<open>The body of the loop over \<open>analysis.split('\n\n')\<close>. A part that starts with a
      digit and has \<open>'. '\<close> is unpacked into a header line and the rest; unpacking a part
      of one line raises \<open>ValueError\<close>.\<close>
  "section_block lib part = (case strip part of
       [] \<Rightarrow> Inr []
     | c # cs \<Rightarrow>
         bindE
           (if isdigit lib c \<and> contains (lit ''. '') part then
              (case split_once [10] [] part of
                 [header, content] \<Rightarrow>
                   bindE (new_paragraph lib (strip header) CustomHeading2) (\<lambda>p1.
                   bindE (new_paragraph lib (strip content) CustomBody) (\<lambda>p2.
                   Inr [p1, p2]))
               | _ \<Rightarrow> Inl (ValueError (lit ''not enough values to unpack (expected 2, got 1)'')))
            else bindE (new_paragraph lib (strip part) CustomBody) (\<lambda>p. Inr [p]))
           (\<lambda>ps. Inr (ps @ [Spacer 1 10])))"

definition create_pdf_story ::
  "library \<Rightarrow> pydict \<Rightarrow> pystr \<Rightarrow> pydict \<Rightarrow> pydict \<Rightarrow> figure \<Rightarrow> figure \<Rightarrow> error + flowable list" where
  \<comment> \<open>The list \<open>story\<close> of \<open>create_pdf\<close> when \<open>doc.build(story)\<close> is reached.\<close>
  "create_pdf_story lib client_info analysis before_data after_data fig1 fig2 =
     bindE (new_paragraph lib (lit ''Yoga Progress Report'') CustomTitle) (\<lambda>title1.
     bindE (getitem client_info ''name'') (\<lambda>name.
     bindE (new_paragraph lib (lit ''for '' @ py_str (isprintable lib) name) CustomTitle) (\<lambda>title2.
     bindE (new_paragraph lib (lit ''Assessment Date: '' @ report_date lib) CustomBody) (\<lambda>date.
     bindE (getitem client_info ''previous_yoga_experience'') (\<lambda>experience.
     bindE (new_paragraph lib (lit ''Experience Level: '' @ py_str (isprintable lib) experience)
              CustomBody) (\<lambda>level.
     bindE (new_paragraph lib (lit ''Progress Visualization'') CustomHeading2) (\<lambda>visualization.
     bindE (mapE (chart_block lib)
              [(fig1, lit ''Physical Metrics Comparison''),
               (fig2, lit ''Mental & Emotional Metrics Comparison'')]) (\<lambda>charts.
     bindE (new_paragraph lib (lit ''Progress Summary'') CustomHeading2) (\<lambda>summary.
     bindE (physical_data lib before_data after_data) (\<lambda>physical.
     bindE (mental_data lib before_data after_data) (\<lambda>mental.
     bindE (new_paragraph lib (lit ''Detailed Progress Analysis'') CustomHeading2) (\<lambda>detailed.
     bindE (mapE (section_block lib) (split analysis [10, 10])) (\<lambda>parts.
     Inr ([title1, title2, Spacer 1 30, date, level, Spacer 1 30, visualization, Spacer 1 10]
          @ concat charts
          @ [summary, summary_table physical, Spacer 1 20, summary_table mental, Spacer 1 30,
             detailed, Spacer 1 10]
          @ concat parts))))))))))))))"

definition create_pdf ::
  "library \<Rightarrow> pydict \<Rightarrow> pystr \<Rightarrow> pydict \<Rightarrow> pydict \<Rightarrow> figure \<Rightarrow> figure \<Rightarrow> error + bytes" where
  "create_pdf lib client_info analysis before_data after_data fig1 fig2 =
     bindE (create_pdf_story lib client_info analysis before_data after_data fig1 fig2)
       (doc_build lib progress_doc)"

fun tables_of :: "flowable list \<Rightarrow> pyval list list list" where
  \<comment> \<open>The cell data of the tables of a story, in order.\<close>
  "tables_of [] = []"
| "tables_of (Table rows widths sty # fs) = rows # tables_of fs"
| "tables_of (f # fs) = tables_of fs"

section \<open>The API key: \<open>get_groq_client\<close>\<close>







section \<open>Session state and the button handlers of \<open>main\<close>\<close>

definition default_data :: pydict where
  "default_data = map_of
     [(''flexibility'', PInt 0),
      (''strength'', PInt 0),
      (''balance'', PInt 0),
      (''pain'', PInt 0),
      (''posture'', PInt 0),
      (''breathing'', PInt 0),
      (''spine'', PInt 0),
      (''hips'', PInt 0),
      (''shoulders'', PInt 0),
      (''core'', PInt 0),
      (''stress'', PInt 0),
      (''energy'', PInt 0),
      (''focus'', PInt 0),
      (''sleep'', PInt 0),
      (''anxiety'', PInt 0),
      (''mood'', PInt 0),
      (''mindfulness'', PInt 0),
      (''notes'', PStr []),
      (''limitations'', PStr []),
      (''symptoms'', PStr [])]"

definition default_client_info :: pydict where
  \<comment> \<open>The dictionary \<open>initialize_session_state\<close> stores as \<open>st.session_state.client_info\<close>.\<close>
  "default_client_info = map_of
     [(''name'', PStr []),
      (''age'', PInt 0),
      (''medical_history'', PStr []),
      (''current_medications'', PStr []),
      (''previous_yoga_experience'', PStr []),
      (''primary_goals'', PList []),
      (''specific_concerns'', PStr []),
      (''occupation'', PStr []),
      (''work_activity_level'', PStr []),
      (''stress_sources'', PList []),
      (''exercise_routine'', PStr []),
      (''sleep_hours'', PInt 7),
      (''diet_type'', PStr [])]"

text \<open>
  \<open>st.session_state\<close> as a run of the script finds it: each attribute is there or not.
\<close>

record stored_session =
  stored_before_data :: "pydict option"
  stored_after_data :: "pydict option"
  stored_client_info :: "pydict option"
  stored_progress_pdf :: "bytes option"
  stored_diet_pdf :: "bytes option"

text \<open>\<open>st.session_state\<close> after \<open>initialize_session_state\<close>: the three dictionaries are there.\<close>

record session_state =
  ss_before_data :: pydict
  ss_after_data :: pydict
  ss_client_info :: pydict
  ss_progress_pdf :: "bytes option"
  ss_diet_pdf :: "bytes option"

definition initialize_session_state :: "stored_session \<Rightarrow> session_state" where
  "initialize_session_state st =
     \<lparr>ss_before_data = (case stored_before_data st of None \<Rightarrow> default_data | Some d \<Rightarrow> d),
      ss_after_data = (case stored_after_data st of None \<Rightarrow> default_data | Some d \<Rightarrow> d),
      ss_client_info = (case stored_client_info st of None \<Rightarrow> default_client_info | Some d \<Rightarrow> d),
      ss_progress_pdf = stored_progress_pdf st,
      ss_diet_pdf = stored_diet_pdf st\<rparr>"

text \<open>What a handler puts on the page, call by call.\<close>

datatype ui =
    St_success pystr
  | St_error pystr
  | St_spinner pystr
  | St_plotly_chart figure
  | St_subheader pystr
  | St_write pystr
  | St_markdown pystr
  | St_download_button pystr bytes pystr pystr pystr

text \<open>
  The state a handler works on: the session state, the page so far and the chat requests
  sent so far. A block of statements yields the exception that left it, if any, and the
  state at that point.
\<close>

record world =
  w_session :: session_state
  w_screen :: "ui list"
  w_sent :: "chat_request list"

type_synonym run = "error option \<times> world"

definition display :: "ui \<Rightarrow> world \<Rightarrow> world" where
  "display u w = w\<lparr>w_screen := w_screen w @ [u]\<rparr>"

definition try_except :: "run \<Rightarrow> (error \<Rightarrow> world \<Rightarrow> run) \<Rightarrow> run" where
  \<comment> \<open>\<open>try: body except Exception as e: handler\<close>\<close>
  "try_except body handler = (case body of (None, w) \<Rightarrow> (None, w) | (Some e, w) \<Rightarrow> handler e w)"

definition and_then :: "run \<Rightarrow> (world \<Rightarrow> run) \<Rightarrow> run" where
  \<comment> \<open>One statement after another: an exception skips what follows.\<close>
  "and_then r next_block = (case r of (None, w) \<Rightarrow> next_block w | (Some e, w) \<Rightarrow> (Some e, w))"

text \<open>The values of the sliders and text areas of the first two tabs.\<close>

record before_widgets =
  before_flexibility :: int
  before_strength :: int
  before_balance :: int
  before_pain :: int
  before_posture :: int
  before_breathing :: int
  before_spine :: int
  before_hips :: int
  before_shoulders :: int
  before_core :: int
  before_stress :: int
  before_energy :: int
  before_focus :: int
  before_sleep :: int
  before_anxiety :: int
  before_mood :: int
  before_mindfulness :: int
  before_notes :: pystr
  before_limitations :: pystr
  before_symptoms :: pystr

record after_widgets =
  after_flexibility :: int
  after_strength :: int
  after_balance :: int
  after_pain :: int
  after_posture :: int
  after_breathing :: int
  after_spine :: int
  after_hips :: int
  after_shoulders :: int
  after_core :: int
  after_stress :: int
  after_energy :: int
  after_focus :: int
  after_sleep :: int
  after_anxiety :: int
  after_mood :: int
  after_mindfulness :: int
  after_notes :: pystr

definition before_update :: "before_widgets \<Rightarrow> (string \<times> pyval) list" where
  \<comment> \<open>The dictionary display passed to \<open>st.session_state.before_data.update\<close>.\<close>
  "before_update v =
     [(''flexibility'', PInt (before_flexibility v)),
      (''strength'', PInt (before_strength v)),
      (''balance'', PInt (before_balance v)),
      (''pain'', PInt (before_pain v)),
      (''posture'', PInt (before_posture v)),
      (''breathing'', PInt (before_breathing v)),
      (''spine'', PInt (before_spine v)),
      (''hips'', PInt (before_hips v)),
      (''shoulders'', PInt (before_shoulders v)),
      (''core'', PInt (before_core v)),
      (''stress'', PInt (before_stress v)),
      (''energy'', PInt (before_energy v)),
      (''focus'', PInt (before_focus v)),
      (''sleep'', PInt (before_sleep v)),
      (''anxiety'', PInt (before_anxiety v)),
      (''mood'', PInt (before_mood v)),
      (''mindfulness'', PInt (before_mindfulness v)),
      (''notes'', PStr (before_notes v)),
      (''limitations'', PStr (before_limitations v)),
      (''symptoms'', PStr (before_symptoms v))]"

definition after_update :: "after_widgets \<Rightarrow> (string \<times> pyval) list" where
  \<comment> \<open>The dictionary display passed to \<open>st.session_state.after_data.update\<close>.\<close>
  "after_update v =
     [(''flexibility'', PInt (after_flexibility v)),
      (''strength'', PInt (after_strength v)),
      (''balance'', PInt (after_balance v)),
      (''pain'', PInt (after_pain v)),
      (''posture'', PInt (after_posture v)),
      (''breathing'', PInt (after_breathing v)),
      (''spine'', PInt (after_spine v)),
      (''hips'', PInt (after_hips v)),
      (''shoulders'', PInt (after_shoulders v)),
      (''core'', PInt (after_core v)),
      (''stress'', PInt (after_stress v)),
      (''energy'', PInt (after_energy v)),
      (''focus'', PInt (after_focus v)),
      (''sleep'', PInt (after_sleep v)),
      (''anxiety'', PInt (after_anxiety v)),
      (''mood'', PInt (after_mood v)),
      (''mindfulness'', PInt (after_mindfulness v)),
      (''notes'', PStr (after_notes v))]"

definition dict_update :: "pydict \<Rightarrow> (string \<times> pyval) list \<Rightarrow> pydict" where
  \<comment> \<open>\<open>d.update({...})\<close> with a display of distinct keys\<close>
  "dict_update d kvs = d ++ map_of kvs"

definition save_before_assessment :: "before_widgets \<Rightarrow> world \<Rightarrow> run" where
  \<comment> \<open>The body of \<open>if st.button("Save Before Assessment")\<close>.\<close>
  "save_before_assessment v w =
     (None, display (St_success (lit ''Before assessment saved!''))
        (w\<lparr>w_session := (w_session w)\<lparr>ss_before_data :=
              dict_update (ss_before_data (w_session w)) (before_update v)\<rparr>\<rparr>))"

definition save_after_assessment :: "after_widgets \<Rightarrow> world \<Rightarrow> run" where
  \<comment> \<open>The body of \<open>if st.button("Save After Assessment")\<close>.\<close>
  "save_after_assessment v w =
     (None, display (St_success (lit ''After assessment saved!''))
        (w\<lparr>w_session := (w_session w)\<lparr>ss_after_data :=
              dict_update (ss_after_data (w_session w)) (after_update v)\<rparr>\<rparr>))"

definition please_complete :: pystr where
  "please_complete = lit ''Please complete and save both before and after assessments first!''"

definition progress_file_name :: "library \<Rightarrow> pyval \<Rightarrow> pystr" where
  "progress_file_name lib name =
     lit ''yoga_progress_report_'' @ py_str (isprintable lib) name @ lit ''_'' @ file_date lib
       @ lit ''.pdf''"

definition analysis_body :: "library \<Rightarrow> client \<Rightarrow> pydict \<Rightarrow> world \<Rightarrow> run" where
  \<comment> \<open>The body of the \<open>try\<close> of the Generate Analysis handler, under the spinner.\<close>
  "analysis_body lib groq_client client_info w0 =
     (let w = display (St_spinner (lit ''Generating your progress report...'')) w0;
          before_data = ss_before_data (w_session w);
          after_data = ss_after_data (w_session w)
      in case create_comparison_charts before_data after_data of
           Inl e \<Rightarrow> (Some e, w)
         | Inr (fig1, fig2) \<Rightarrow>
             (let w1 = display (St_plotly_chart fig2) (display (St_plotly_chart fig1) w)
              in case generate_analysis lib groq_client before_data after_data client_info (w_sent w1) of
                   (Inl e, sent') \<Rightarrow> (Some e, w1\<lparr>w_sent := sent'\<rparr>)
                 | (Inr analysis, sent') \<Rightarrow>
                     (let w2 = display (St_write analysis)
                                 (display (St_subheader (lit ''Your Progress Journey''))
                                    (w1\<lparr>w_sent := sent'\<rparr>))
                      in case create_pdf lib client_info analysis before_data after_data fig1 fig2 of
                           Inl e \<Rightarrow> (Some e, w2)
                         | Inr progress_pdf \<Rightarrow>
                             (let w3 = display
                                    (St_markdown (lit ''### '' @ [128229] @ lit '' Download Your Progress Report''))
                                    (w2\<lparr>w_session := (w_session w2)\<lparr>ss_progress_pdf := Some progress_pdf\<rparr>\<rparr>)
                              in case getitem client_info ''name'' of
                                   Inl e \<Rightarrow> (Some e, w3)
                                 | Inr name \<Rightarrow>
                                     (None, display
                                        (St_download_button
                                           (lit ''Download Complete Progress Report (PDF)'')
                                           progress_pdf
                                           (progress_file_name lib name)
                                           (lit ''application/pdf'')
                                           (lit ''Click to download your detailed progress report including charts and analysis''))
                                        w3)))))"

definition incomplete :: "world \<Rightarrow> bool" where
  \<comment> \<open>\<open>not before_data.get('flexibility') and not after_data.get('flexibility')\<close>\<close>
  "incomplete w \<longleftrightarrow>
     \<not> truthy_opt (ss_before_data (w_session w) ''flexibility'') \<and>
     \<not> truthy_opt (ss_after_data (w_session w) ''flexibility'')"

definition generate_analysis_button :: "library \<Rightarrow> client \<Rightarrow> pydict \<Rightarrow> world \<Rightarrow> run" where
  \<comment> \<open>The body of \<open>if st.button("Generate Analysis")\<close>.\<close>
  "generate_analysis_button lib groq_client client_info w =
     (if incomplete w then (None, display (St_error please_complete) w)
      else try_except (analysis_body lib groq_client client_info w)
             (\<lambda>e w'. (None, display (St_error (lit ''An error occurred: '' @ str_exc e)) w')))"

definition diet_file_name :: "library \<Rightarrow> pyval \<Rightarrow> pystr" where
  "diet_file_name lib name =
     lit ''diet_plan_'' @ py_str (isprintable lib) name @ lit ''_'' @ file_date lib @ lit ''.pdf''"

definition diet_body :: "library \<Rightarrow> client \<Rightarrow> pydict \<Rightarrow> world \<Rightarrow> run option" where
  \<comment> \<open>The body of the \<open>try\<close> of the diet plan handler. \<open>None\<close>: it does not end.\<close>
  "diet_body lib groq_client client_info w =
     (case generate_dietary_plan lib groq_client client_info
             (ss_before_data (w_session w)) (ss_after_data (w_session w)) (w_sent w) of
        (Inl e, sent') \<Rightarrow> Some (Some e, w\<lparr>w_sent := sent'\<rparr>)
      | (Inr dietary_plan, sent') \<Rightarrow>
          (let w1 = display (St_write dietary_plan)
                      (display (St_markdown (lit ''### Your Personalized Diet Plan''))
                         (w\<lparr>w_sent := sent'\<rparr>))
           in case create_diet_pdf lib client_info dietary_plan of
                None \<Rightarrow> None
              | Some (Inl e) \<Rightarrow> Some (Some e, w1)
              | Some (Inr diet_pdf) \<Rightarrow>
                  (let w2 = w1\<lparr>w_session := (w_session w1)\<lparr>ss_diet_pdf := Some diet_pdf\<rparr>\<rparr>
                   in case getitem client_info ''name'' of
                        Inl e \<Rightarrow> Some (Some e, w2)
                      | Inr name \<Rightarrow>
                          Some (None, display
                             (St_download_button
                                ([128229] @ lit '' Download Diet Plan (PDF)'')
                                diet_pdf
                                (diet_file_name lib name)
                                (lit ''application/pdf'')
                                (lit ''Click to download your personalized diet plan''))
                             w2))))"

definition generate_diet_plan_button :: "library \<Rightarrow> client \<Rightarrow> pydict \<Rightarrow> world \<Rightarrow> run option" where
  \<comment> \<open>The body of \<open>if st.button("Generate Personalized Diet Plan")\<close>.\<close>
  "generate_diet_plan_button lib groq_client client_info w =
     map_option
       (\<lambda>body. try_except body
          (\<lambda>e w'. (None, display
             (St_error (lit ''An error occurred while generating the diet plan: '' @ str_exc e)) w')))
       (diet_body lib groq_client client_info w)"

definition main_client_info :: pydict where
  \<comment> \<open>The local \<open>client_info\<close> that \<open>main\<close> builds at its start.\<close>
  "main_client_info = map_of
     [(''name'', PStr []),
      (''age'', PInt 0),
      (''occupation'', PStr []),
      (''previous_yoga_experience'', PStr []),
      (''primary_goals'', PList []),
      (''specific_concerns'', PStr []),
      (''work_activity_level'', PStr []),
      (''stress_sources'', PList []),
      (''exercise_routine'', PStr []),
      (''sleep_hours'', PInt 7),
      (''diet_type'', PStr []),
      (''current_medications'', PStr []),
      (''height'', PInt 170),
      (''weight'', PInt 70),
      (''target_weight'', PInt 70),
      (''dietary_restrictions'', PList []),
      (''food_allergies'', PStr []),
      (''preferred_cuisine'', PList []),
      (''meal_prep_time'', PInt 30),
      (''medical_conditions'', PStr []),
      (''digestive_issues'', PStr []),
      (''health_goals'', PList []),
      (''nutritional_needs'', PStr [])]"

text \<open>The values of the widgets of the fourth tab.\<close>

record diet_widgets =
  in_height :: int
  in_weight :: int
  in_target_weight :: int
  in_meal_prep_time :: int
  in_dietary_restrictions :: "pystr list"
  in_food_allergies :: pystr
  in_preferred_cuisine :: "pystr list"
  in_medical_conditions :: pystr
  in_digestive_issues :: pystr
  in_health_goals :: "pystr list"
  in_nutritional_needs :: pystr

definition diet_client_info :: "pydict \<Rightarrow> diet_widgets \<Rightarrow> pydict" where
  \<comment> \<open>The item assignments \<open>client_info['height'] = st.number_input(...)\<close>, ... of the
      fourth tab.\<close>
  "diet_client_info client_info v = client_info
     (''height'' \<mapsto> PInt (in_height v),
      ''weight'' \<mapsto> PInt (in_weight v),
      ''target_weight'' \<mapsto> PInt (in_target_weight v),
      ''meal_prep_time'' \<mapsto> PInt (in_meal_prep_time v),
      ''dietary_restrictions'' \<mapsto> PList (in_dietary_restrictions v),
      ''food_allergies'' \<mapsto> PStr (in_food_allergies v),
      ''preferred_cuisine'' \<mapsto> PList (in_preferred_cuisine v),
      ''medical_conditions'' \<mapsto> PStr (in_medical_conditions v),
      ''digestive_issues'' \<mapsto> PStr (in_digestive_issues v),
      ''health_goals'' \<mapsto> PList (in_health_goals v),
      ''nutritional_needs'' \<mapsto> PStr (in_nutritional_needs v))"

text \<open>
  One run of the script: the widget values and, for each \<open>st.button\<close>, whether it
  returned \<open>True\<close>.
\<close>

record inputs =
  before_values :: before_widgets
  after_values :: after_widgets
  diet_values :: diet_widgets
  save_before_clicked :: bool
  save_after_clicked :: bool
  generate_analysis_clicked :: bool
  generate_diet_clicked :: bool

definition main :: "library \<Rightarrow> client \<Rightarrow> inputs \<Rightarrow> stored_session \<Rightarrow> run option" where
  \<comment> \<open>The four \<open>if st.button(...)\<close> blocks of \<open>main\<close> in order, on a fresh page. The calls
      that only lay out the page and draw the widgets are not recorded.\<close>
  "main lib groq_client inp st =
     (let w0 = \<lparr>w_session = initialize_session_state st, w_screen = [], w_sent = []\<rparr>;
          client_info = main_client_info;
          r = and_then
                (and_then
                   (if save_before_clicked inp then save_before_assessment (before_values inp) w0
                    else (None, w0))
                   (\<lambda>w. if save_after_clicked inp then save_after_assessment (after_values inp) w
                        else (None, w)))
                (\<lambda>w. if generate_analysis_clicked inp
                      then generate_analysis_button lib groq_client client_info w
                      else (None, w))
      in case r of
           (Some e, w) \<Rightarrow> Some (Some e, w)
         | (None, w) \<Rightarrow>
             if generate_diet_clicked inp
             then generate_diet_plan_button lib groq_client
                    (diet_client_info client_info (diet_values inp)) w
             else Some (None, w))"

section \<open>The handlers when a call that draws on the page may raise\<close>

text \<open>
  \<open>st.success\<close>, \<open>st.error\<close>, \<open>st.write\<close> and the other calls that draw on the page are
  library calls too. Above they always succeed. Here a page says, for each such call,
  whether it raises; the handlers are the same statements in the same order, each draw
  going through \<open>st_call\<close>.
\<close>

type_synonym page = "ui \<Rightarrow> error option"

definition st_call :: "page \<Rightarrow> ui \<Rightarrow> world \<Rightarrow> run" where
  "st_call pg u w = (case pg u of Some e \<Rightarrow> (Some e, w) | None \<Rightarrow> (None, display u w))"







definition failing_plan :: pystr where
  \<comment> \<open>A plan in the format the prompt of \<open>generate_dietary_plan\<close> asks for.\<close>
  "failing_plan =
     lit ''Breakfast (7:00 AM)\<newline>Main: Oatmeal with berries\<newline>Calories: 350''"

text \<open>The keys a dictionary must hold for a list of subscriptions to succeed.\<close>

definition has_keys :: "pydict \<Rightarrow> string list \<Rightarrow> bool" where
  "has_keys d ks = list_all (\<lambda>k. d k \<noteq> None) ks"

definition score_keys :: "string list" where
  "score_keys = map snd (physical_fields @ mental_fields)"


definition score :: "pydict \<Rightarrow> string \<Rightarrow> int" where
  \<comment> \<open>The integer a dictionary holds under a key.\<close>
  "score d k = (case d k of Some (PInt n) \<Rightarrow> n | _ \<Rightarrow> 0)"

definition digits_value :: "pystr \<Rightarrow> nat" where
  \<comment> \<open>The number a string of decimal digits denotes.\<close>
  "digits_value ds = foldl (\<lambda>acc d. 10 * acc + (d - 48)) 0 ds"

definition signed_value :: "pystr \<Rightarrow> int" where
  \<comment> \<open>The integer a sign followed by decimal digits denotes.\<close>
  "signed_value s = (case s of
       [] \<Rightarrow> 0
     | c # ds \<Rightarrow> if c = 45 then - int (digits_value ds) else int (digits_value ds))"

definition test_library :: library where
  \<comment> \<open>A library for concrete runs: every text is printable markup, the LLM answers in
      one choice, images and documents are rendered to fixed bytes.\<close>
  "test_library =
     \<lparr>isprintable = (\<lambda>c. True),
      isdigit = (\<lambda>c. 48 \<le> c \<and> c \<le> 57),
      chat_completions_create = (\<lambda>c r. Inr \<lparr>choices = [\<lparr>message_content = lit ''1. SUMMARY\<newline>Steady progress.''\<rparr>]\<rparr>),
      markup_error = (\<lambda>s. None),
      to_image = (\<lambda>f. Inr [137, 80, 78, 71]),
      doc_build = (\<lambda>d fs. Inr [37, 80, 68, 70]),
      report_date = lit ''January 01, 2025'',
      file_date = lit ''20250101''\<rparr>"

definition sample_before :: pydict where
  \<comment> \<open>A saved before-assessment.\<close>
  "sample_before = map_of
     [(''flexibility'', PInt 2),
      (''strength'', PInt 3),
      (''balance'', PInt 4),
      (''pain'', PInt 7),
      (''posture'', PInt 5),
      (''breathing'', PInt 6),
      (''spine'', PInt 3),
      (''hips'', PInt 2),
      (''shoulders'', PInt 4),
      (''core'', PInt 5),
      (''stress'', PInt 8),
      (''energy'', PInt 4),
      (''focus'', PInt 5),
      (''sleep'', PInt 6),
      (''anxiety'', PInt 7),
      (''mood'', PInt 5),
      (''mindfulness'', PInt 3),
      (''notes'', PStr (lit ''stiff'')),
      (''limitations'', PStr (lit ''knee'')),
      (''symptoms'', PStr [])]"

definition sample_after :: pydict where
  \<comment> \<open>A saved after-assessment.\<close>
  "sample_after = map_of
     [(''flexibility'', PInt 5),
      (''strength'', PInt 3),
      (''balance'', PInt 6),
      (''pain'', PInt 4),
      (''posture'', PInt 7),
      (''breathing'', PInt 8),
      (''spine'', PInt 5),
      (''hips'', PInt 4),
      (''shoulders'', PInt 6),
      (''core'', PInt 4),
      (''stress'', PInt 6),
      (''energy'', PInt 7),
      (''focus'', PInt 5),
      (''sleep'', PInt 8),
      (''anxiety'', PInt 5),
      (''mood'', PInt 7),
      (''mindfulness'', PInt 10),
      (''notes'', PStr (lit ''better'')),
      (''limitations'', PStr []),
      (''symptoms'', PStr [])]"

definition sample_analysis :: pystr where
  "sample_analysis = lit ''1. SUMMARY\<newline>Steady progress.\<newline>\<newline>Keep going.''"

definition sample_figure :: figure where
  "sample_figure = px_bar \<lparr>df_index = [], df_columns = [], df_values = []\<rparr> (lit ''group'') []"

text \<open>The keys a template subscripts in one of its three dictionaries.\<close>

fun fields_of :: "piece list \<Rightarrow> source \<Rightarrow> string list" where
  "fields_of [] src = []"
| "fields_of (Lit s # ps) src = fields_of ps src"
| "fields_of (Field s k # ps) src = (if s = src then k # fields_of ps src else fields_of ps src)"
| "fields_of (Joined s k # ps) src = (if s = src then k # fields_of ps src else fields_of ps src)"

definition agree_on :: "string list \<Rightarrow> pydict \<Rightarrow> pydict \<Rightarrow> bool" where
  \<comment> \<open>Two dictionaries hold the same under each of the keys.\<close>
  "agree_on ks d d' = list_all (\<lambda>k. d k = d' k) ks"

definition readable :: "(source \<Rightarrow> pydict) \<Rightarrow> piece \<Rightarrow> bool" where
  \<comment> \<open>A replacement field can be evaluated: its key is there, and what is joined is a
      list or a string.\<close>
  "readable dicts p = (case p of
       Lit s \<Rightarrow> True
     | Field src k \<Rightarrow> dicts src k \<noteq> None
     | Joined src k \<Rightarrow>
         (case dicts src k of Some (PList xs) \<Rightarrow> True | Some (PStr s) \<Rightarrow> True | _ \<Rightarrow> False))"

definition sample_diet_values :: diet_widgets where
  \<comment> \<open>The fourth tab with every widget at its default.\<close>
  "sample_diet_values =
     \<lparr>in_height = 170,
      in_weight = 70,
      in_target_weight = 70,
      in_meal_prep_time = 30,
      in_dietary_restrictions = [lit ''None''],
      in_food_allergies = [],
      in_preferred_cuisine = [lit ''Mediterranean''],
      in_medical_conditions = [],
      in_digestive_issues = [],
      in_health_goals = [lit ''Maintenance''],
      in_nutritional_needs = []\<rparr>"

definition score_and_text_keys :: "string list" where
  \<comment> \<open>The twenty keys of \<open>default_data\<close>.\<close>
  "score_and_text_keys = score_keys @ [''notes'', ''limitations'', ''symptoms'']"

definition shown :: "world \<Rightarrow> run \<Rightarrow> ui list" where
  \<comment> \<open>What a run of a handler has put on the page.\<close>
  "shown w r = drop (length (w_screen w)) (w_screen (snd r))"

definition is_error :: "ui \<Rightarrow> bool" where
  "is_error u = (case u of St_error m \<Rightarrow> True | _ \<Rightarrow> False)"


definition sample_world :: "pydict \<Rightarrow> pydict \<Rightarrow> world" where
  \<comment> \<open>A fresh page over a session holding the two assessment records.\<close>
  "sample_world before_data after_data =
     \<lparr>w_session = \<lparr>ss_before_data = before_data, ss_after_data = after_data,
                    ss_client_info = default_client_info, ss_progress_pdf = None,
                    ss_diet_pdf = None\<rparr>,
      w_screen = [],
      w_sent = []\<rparr>"







section \<open>Properties of the plan reader\<close>

lemma sublist_strip: "sublist (strip s) s"
proof -
  have "sublist (dropWhile isspace (rev (dropWhile isspace s))) (rev (dropWhile isspace s))"
    by (rule sublist_dropWhile)
  then have "sublist (strip s) (dropWhile isspace s)"
    unfolding strip_def by (simp add: sublist_rev_left)
  moreover have "sublist (dropWhile isspace s) s"
    by (rule sublist_dropWhile)
  ultimately show ?thesis
    by (rule sublist_order.order.trans)
qed

lemma contains_strip: "contains w (strip s) \<Longrightarrow> contains w s"
  unfolding contains_def using sublist_strip sublist_order.order.trans by blast

lemma any_in_strip: "any_in ws (strip s) \<Longrightarrow> any_in ws s"
  by (auto simp: any_in_def list_ex_iff dest: contains_strip)

lemma collect_meal_at_meal:
  "any_in meal_names (lines ! i) \<Longrightarrow> collect_meal lines i acc = Inr (i, acc)"
  by (subst collect_meal.simps) simp

lemma any_in_meal_nonempty: "any_in meal_names s \<Longrightarrow> s \<noteq> []"
  by (auto simp: any_in_def meal_names_def contains_def lit_def)

lemma parse_plan_stuck:
  assumes "i < length lines" "stuck_line (lines ! i)"
  shows "parse_plan lib lines i story meal_data = None"
proof -
  have cm: "collect_meal lines i ([], [], []) = Inr (i, [], [], [])"
    using assms(2) by (simp add: collect_meal_at_meal any_in_strip stuck_line_def)
  have ne: "strip (lines ! i) \<noteq> []"
    using assms(2) any_in_meal_nonempty by (auto simp: stuck_line_def)
  have "l = lines \<longrightarrow> j = i \<longrightarrow> False"
    if "parse_plan lb l j st md = Some y" for lb l j st md y
    using that
  proof (rule parse_plan.raw_induct[rotated, where P = "\<lambda>lb l j st md y. l = lines \<longrightarrow> j = i \<longrightarrow> False"], goal_cases)
    case (1 loop lb l j st md y)
    show ?case
    proof (intro impI)
      assume "l = lines" "j = i"
      with 1(2) assms cm ne have "loop lb lines i st md = Some y"
        by (simp add: stuck_line_def Let_def)
      with 1(1) show False by blast
    qed
  qed
  then have "parse_plan lib lines i story meal_data \<noteq> Some y" for y
    by blast
  then show ?thesis
    by (cases "parse_plan lib lines i story meal_data") blast+
qed

lemma any_in_day_nonempty: "any_in day_names s \<Longrightarrow> s \<noteq> []"
  by (auto simp: any_in_def day_names_def contains_def lit_def)

lemma parse_plan_step:
  assumes "i < length lines" "\<not> stuck_line (lines ! i)"
  shows "parse_plan lib lines i story meal_data = 
     (if any_in day_names (strip (lines ! i)) then
        (case new_paragraph lib (strip (lines ! i)) CustomDayHeader of
              Inl e \<Rightarrow> Some (Inl e)
            | Inr day_header \<Rightarrow>
                parse_plan lib lines (i + 1)
                  ((if has_rows meal_data then story @ [meal_table (the meal_data), Spacer 1 15]
                    else story) @ [day_header])
                  (Some [meal_header]))
      else parse_plan lib lines (i + 1) story meal_data)"
  using assms any_in_meal_nonempty[of "strip (lines ! i)"] any_in_day_nonempty[of "strip (lines ! i)"]
  by (subst parse_plan.simps) (auto simp: stuck_line_def Let_def)

lemma parse_plan_returns_no_stuck:
  "parse_plan lib lines i story meal_data = Some (Inr r) \<Longrightarrow> i \<le> j \<Longrightarrow> j < length lines \<Longrightarrow>
     \<not> stuck_line (lines ! j)"
proof (induction "j - i" arbitrary: i story meal_data)
  case 0
  then have "j = i" by simp
  with 0 show ?case using parse_plan_stuck by fastforce
next
  case (Suc n)
  show ?case
  proof (cases "stuck_line (lines ! i)")
    case True
    with Suc.prems show ?thesis using parse_plan_stuck[of i lines] by fastforce
  next
    case False
    have i: "i < length lines" using Suc.prems Suc.hyps by linarith
    have n: "n = j - (i + 1)" "i + 1 \<le> j" using Suc.hyps by linarith+
    from Suc.prems(1) obtain st md where "parse_plan lib lines (i + 1) st md = Some (Inr r)"
      unfolding parse_plan_step[OF i False]
      by (auto split: if_splits sum.splits)
    from Suc.hyps(1)[OF n(1) this n(2) Suc.prems(3)] show ?thesis .
  qed
qed

lemma parse_plan_terminates:
  "(\<forall>j. i \<le> j \<and> j < length lines \<longrightarrow> \<not> stuck_line (lines ! j)) \<Longrightarrow>
     \<exists>r. parse_plan lib lines i story meal_data = Some r"
proof (induction "length lines - i" arbitrary: i story meal_data)
  case 0
  then show ?case by (subst parse_plan.simps) simp
next
  case (Suc n)
  have i: "i < length lines" using Suc.hyps by linarith
  have ns: "\<not> stuck_line (lines ! i)" using Suc.prems i by simp
  have n: "n = length lines - (i + 1)" using Suc.hyps by linarith
  have rest: "\<forall>j. i + 1 \<le> j \<and> j < length lines \<longrightarrow> \<not> stuck_line (lines ! j)"
    using Suc.prems by simp
  show ?case
    unfolding parse_plan_step[OF i ns]
    using Suc.hyps(1)[OF n rest]
    by (auto split: sum.splits)
qed

lemma failing_lines:
  "split failing_plan [10] =
     [lit ''Breakfast (7:00 AM)'', lit ''Main: Oatmeal with berries'', lit ''Calories: 350'']"
  by (simp add: failing_plan_def split_def lit_def)

lemma stuck_breakfast: "stuck_line (lit ''Breakfast (7:00 AM)'')"
  by (simp add: stuck_line_def any_in_def meal_names_def day_names_def contains_def lit_def
      strip_def isspace_def sublist_code)

lemma parse_failing_plan: "parse_plan lib (split failing_plan [10]) 0 story meal_data = None"
  by (rule parse_plan_stuck) (simp_all add: failing_lines stuck_breakfast)

text \<open>
  C3 (the claim: for every plan text \<open>create_diet_pdf\<close> terminates and returns a byte
  buffer, the line-scanning loop always making progress). The code does not: on a line
  that names a meal and no day, the inner loop's own condition is false at once (the line
  it starts on is the meal line), \<open>i\<close> is not advanced, and the outer loop meets the same
  line again. On \<open>failing_plan\<close> the loop does not end from any state, \<open>create_diet_pdf\<close>
  never returns a buffer, and with the client profile of \<open>main\<close> and a markup parser that
  accepts the title it does not return at all.
\<close>

theorem create_diet_pdf_hangs:
  "parse_plan lib (split failing_plan [10]) 0 story meal_data = None \<and>
   create_diet_pdf lib client_info failing_plan \<noteq> Some (Inr pdf) \<and>
   create_diet_pdf (lib\<lparr>markup_error := \<lambda>s. None\<rparr>) (diet_client_info main_client_info v)
     failing_plan = None"
proof (intro conjI)
  show "parse_plan lib (split failing_plan [10]) 0 story meal_data = None"
    by (rule parse_failing_plan)
  show "create_diet_pdf lib client_info failing_plan \<noteq> Some (Inr pdf)"
    by (simp add: create_diet_pdf_def parse_failing_plan split: sum.splits)
  show "create_diet_pdf (lib\<lparr>markup_error := \<lambda>s. None\<rparr>) (diet_client_info main_client_info v)
     failing_plan = None"
    by (simp add: create_diet_pdf_def parse_failing_plan diet_title_def new_paragraph_def
        getitem_def bindE_def diet_client_info_def main_client_info_def profile_data_def
        py_join_def)
qed

section \<open>Properties of the comparison charts\<close>

lemma getitem_has_keys:
  "has_keys d ks \<Longrightarrow> k \<in> set ks \<Longrightarrow> getitem d k = Inr (the (d k))"
  by (auto simp: has_keys_def list_all_iff getitem_def)

lemma score_keys_eq: "score_keys = [''flexibility'', ''strength'', ''balance'', ''pain'', ''posture'',
  ''breathing'', ''spine'', ''hips'', ''shoulders'', ''core'', ''stress'', ''energy'', ''focus'',
  ''sleep'', ''anxiety'', ''mood'', ''mindfulness'']"
  by (simp add: score_keys_def physical_fields_def mental_fields_def)

lemma physical_metrics_eq:
  assumes b: "has_keys before_data score_keys" and a: "has_keys after_data score_keys"
  shows "physical_metrics before_data after_data = Inr
     [(lit ''Flexibility'', [the (before_data ''flexibility''), the (after_data ''flexibility'')]),
      (lit ''Strength'', [the (before_data ''strength''), the (after_data ''strength'')]),
      (lit ''Balance'', [the (before_data ''balance''), the (after_data ''balance'')]),
      (lit ''Pain Level'', [the (before_data ''pain''), the (after_data ''pain'')]),
      (lit ''Posture'', [the (before_data ''posture''), the (after_data ''posture'')]),
      (lit ''Breathing'', [the (before_data ''breathing''), the (after_data ''breathing'')]),
      (lit ''Spine'', [the (before_data ''spine''), the (after_data ''spine'')]),
      (lit ''Hips'', [the (before_data ''hips''), the (after_data ''hips'')]),
      (lit ''Shoulders'', [the (before_data ''shoulders''), the (after_data ''shoulders'')]),
      (lit ''Core'', [the (before_data ''core''), the (after_data ''core'')])]"
  by (simp add: physical_metrics_def physical_fields_def metric_entry_def bindE_def
      getitem_has_keys[OF b] getitem_has_keys[OF a] score_keys_eq)

lemma mental_metrics_eq:
  assumes b: "has_keys before_data score_keys" and a: "has_keys after_data score_keys"
  shows "mental_metrics before_data after_data = Inr
     [(lit ''Stress'', [the (before_data ''stress''), the (after_data ''stress'')]),
      (lit ''Energy'', [the (before_data ''energy''), the (after_data ''energy'')]),
      (lit ''Focus'', [the (before_data ''focus''), the (after_data ''focus'')]),
      (lit ''Sleep'', [the (before_data ''sleep''), the (after_data ''sleep'')]),
      (lit ''Anxiety'', [the (before_data ''anxiety''), the (after_data ''anxiety'')]),
      (lit ''Mood'', [the (before_data ''mood''), the (after_data ''mood'')]),
      (lit ''Mindfulness'', [the (before_data ''mindfulness''), the (after_data ''mindfulness'')])]"
  by (simp add: mental_metrics_def mental_fields_def metric_entry_def bindE_def
      getitem_has_keys[OF b] getitem_has_keys[OF a] score_keys_eq)



lemma has_keys_default: "has_keys default_data score_keys"
  by (simp add: has_keys_def score_keys_eq default_data_def)

text \<open>
  C5: on two assessment records (dictionaries holding the seventeen score keys),
  \<open>create_comparison_charts\<close> builds the physical dictionary with exactly the ten keys
  Flexibility ... Core and the mental dictionary with exactly the seven keys Stress ...
  Mindfulness, each key mapped to the list of the before and the after value of its
  field, and bar-plots the two: each figure is the grouped bar chart of the frame whose
  rows are the dictionary's entries and whose columns are Before and After.
\<close>

theorem create_comparison_charts_dictionaries:
  assumes b: "has_keys before_data score_keys" and a: "has_keys after_data score_keys"
  shows "\<exists>physical mental.
     physical_metrics before_data after_data = Inr physical \<and>
     mental_metrics before_data after_data = Inr mental \<and>
     physical =
       [(lit ''Flexibility'', [the (before_data ''flexibility''), the (after_data ''flexibility'')]),
        (lit ''Strength'', [the (before_data ''strength''), the (after_data ''strength'')]),
        (lit ''Balance'', [the (before_data ''balance''), the (after_data ''balance'')]),
        (lit ''Pain Level'', [the (before_data ''pain''), the (after_data ''pain'')]),
        (lit ''Posture'', [the (before_data ''posture''), the (after_data ''posture'')]),
        (lit ''Breathing'', [the (before_data ''breathing''), the (after_data ''breathing'')]),
        (lit ''Spine'', [the (before_data ''spine''), the (after_data ''spine'')]),
        (lit ''Hips'', [the (before_data ''hips''), the (after_data ''hips'')]),
        (lit ''Shoulders'', [the (before_data ''shoulders''), the (after_data ''shoulders'')]),
        (lit ''Core'', [the (before_data ''core''), the (after_data ''core'')])] \<and>
     mental =
       [(lit ''Stress'', [the (before_data ''stress''), the (after_data ''stress'')]),
        (lit ''Energy'', [the (before_data ''energy''), the (after_data ''energy'')]),
        (lit ''Focus'', [the (before_data ''focus''), the (after_data ''focus'')]),
        (lit ''Sleep'', [the (before_data ''sleep''), the (after_data ''sleep'')]),
        (lit ''Anxiety'', [the (before_data ''anxiety''), the (after_data ''anxiety'')]),
        (lit ''Mood'', [the (before_data ''mood''), the (after_data ''mood'')]),
        (lit ''Mindfulness'', [the (before_data ''mindfulness''), the (after_data ''mindfulness'')])] \<and>
     create_comparison_charts before_data after_data =
       Inr (px_bar \<lparr>df_index = map fst physical, df_columns = [lit ''Before'', lit ''After''],
                     df_values = map snd physical\<rparr>
              (lit ''group'') (lit ''Physical Metrics Comparison''),
            px_bar \<lparr>df_index = map fst mental, df_columns = [lit ''Before'', lit ''After''],
                     df_values = map snd mental\<rparr>
              (lit ''group'') (lit ''Mental & Emotional Metrics Comparison''))"
proof -
  note p = physical_metrics_eq[OF b a] and m = mental_metrics_eq[OF b a]
  have "create_comparison_charts before_data after_data =
       Inr (px_bar \<lparr>df_index = map fst (projr (physical_metrics before_data after_data)),
                     df_columns = [lit ''Before'', lit ''After''],
                     df_values = map snd (projr (physical_metrics before_data after_data))\<rparr>
              (lit ''group'') (lit ''Physical Metrics Comparison''),
            px_bar \<lparr>df_index = map fst (projr (mental_metrics before_data after_data)),
                     df_columns = [lit ''Before'', lit ''After''],
                     df_values = map snd (projr (mental_metrics before_data after_data))\<rparr>
              (lit ''group'') (lit ''Mental & Emotional Metrics Comparison''))"
    by (simp add: create_comparison_charts_def p m bindE_def DataFrame_def df_transpose_def)
  with p m show ?thesis by simp
qed

theorem create_comparison_charts_dictionaries_witness:
  "has_keys default_data score_keys \<and>
   has_keys (default_data(''flexibility'' \<mapsto> PInt 7)) score_keys \<and>
   map snd (projr (physical_metrics default_data (default_data(''flexibility'' \<mapsto> PInt 7)))) =
     [PInt 0, PInt 7] # replicate 9 [PInt 0, PInt 0] \<and>
   map snd (projr (mental_metrics default_data (default_data(''flexibility'' \<mapsto> PInt 7)))) =
     replicate 7 [PInt 0, PInt 0]"
proof -
  have h1: "has_keys default_data score_keys"
    by (rule has_keys_default)
  have h2: "has_keys (default_data(''flexibility'' \<mapsto> PInt 7)) score_keys"
    by (simp add: has_keys_def score_keys_eq default_data_def)
  from create_comparison_charts_dictionaries[OF h1 h2] h1 h2 show ?thesis
    by (auto simp: default_data_def numeral_eq_Suc)
qed

section \<open>Properties of the progress report\<close>

lemma bindE_Inr: "bindE r f = Inr y \<longleftrightarrow> (\<exists>v. r = Inr v \<and> f v = Inr y)"
  by (cases r) (simp_all add: bindE_def)

lemma mapE_Nil_Inr: "mapE f [] = Inr ys \<longleftrightarrow> ys = []"
  by auto

lemma mapE_Cons_Inr:
  "mapE f (x # xs) = Inr ys \<longleftrightarrow> (\<exists>z zs. f x = Inr z \<and> mapE f xs = Inr zs \<and> ys = z # zs)"
  by (auto simp: bindE_Inr)

lemma summary_row_Inr:
  "summary_row lib before_data after_data (label, k) = Inr row \<Longrightarrow>
     row = [PStr (lit label),
            PStr (str_int (score before_data k) @ lit ''/10''),
            PStr (str_int (score after_data k) @ lit ''/10''),
            PStr (format_plus_d (score after_data k - score before_data k))]"
  by (auto simp: summary_row_def bindE_Inr getitem_def py_sub_def score_def py_str_def
      split: option.splits pyval.splits)

lemma physical_data_Inr:
  assumes "physical_data lib b a = Inr rows"
  shows "rows = summary_header #
     map (\<lambda>(label, k). [PStr (lit label),
            PStr (str_int (score b k) @ lit ''/10''),
            PStr (str_int (score a k) @ lit ''/10''),
            PStr (format_plus_d (score a k - score b k))]) physical_rows"
  using assms
  by (auto simp: physical_data_def physical_rows_def bindE_Inr mapE_Cons_Inr mapE_Nil_Inr
      dest!: summary_row_Inr simp del: mapE.simps)

lemma mental_data_Inr:
  assumes "mental_data lib b a = Inr rows"
  shows "rows = summary_header #
     map (\<lambda>(label, k). [PStr (lit label),
            PStr (str_int (score b k) @ lit ''/10''),
            PStr (str_int (score a k) @ lit ''/10''),
            PStr (format_plus_d (score a k - score b k))]) mental_rows"
  using assms
  by (auto simp: mental_data_def mental_rows_def bindE_Inr mapE_Cons_Inr mapE_Nil_Inr
      dest!: summary_row_Inr simp del: mapE.simps)

lemma tables_of_append: "tables_of (xs @ ys) = tables_of xs @ tables_of ys"
  by (induction xs rule: tables_of.induct) simp_all

lemma new_paragraph_Inr: "new_paragraph lib s sty = Inr p \<Longrightarrow> p = Paragraph s sty"
  by (auto simp: new_paragraph_def split: option.splits)

lemma chart_block_tables: "chart_block lib ft = Inr fs \<Longrightarrow> tables_of fs = []"
  by (cases ft) (auto simp: chart_block_def bindE_Inr dest!: new_paragraph_Inr)

lemma section_block_tables: "section_block lib part = Inr fs \<Longrightarrow> tables_of fs = []"
  by (auto simp: section_block_def bindE_Inr tables_of_append
      dest!: new_paragraph_Inr split: list.splits if_splits)

lemma mapE_tables:
  "(\<And>x fs. f x = Inr fs \<Longrightarrow> tables_of fs = []) \<Longrightarrow> mapE f xs = Inr fss \<Longrightarrow>
     tables_of (concat fss) = []"
  by (induction xs arbitrary: fss) (auto simp: bindE_Inr tables_of_append)

lemma story_tables:
  assumes "create_pdf_story lib client_info analysis b a fig1 fig2 = Inr story"
  shows "\<exists>physical mental. physical_data lib b a = Inr physical \<and> mental_data lib b a = Inr mental \<and>
     tables_of story = [physical, mental]"
proof -
  from assms obtain t1 t2 d l v charts s physical mental dt parts where
    ps: "new_paragraph lib (lit ''Yoga Progress Report'') CustomTitle = Inr t1"
      "new_paragraph lib (lit ''Progress Visualization'') CustomHeading2 = Inr v"
      "new_paragraph lib (lit ''Progress Summary'') CustomHeading2 = Inr s"
      "new_paragraph lib (lit ''Detailed Progress Analysis'') CustomHeading2 = Inr dt"
      "new_paragraph lib (lit ''Assessment Date: '' @ report_date lib) CustomBody = Inr d"
    and ps2: "\<exists>x. new_paragraph lib x CustomTitle = Inr t2" "\<exists>x. new_paragraph lib x CustomBody = Inr l"
    and ch: "mapE (chart_block lib)
              [(fig1, lit ''Physical Metrics Comparison''),
               (fig2, lit ''Mental & Emotional Metrics Comparison'')] = Inr charts"
    and ph: "physical_data lib b a = Inr physical"
    and me: "mental_data lib b a = Inr mental"
    and pa: "mapE (section_block lib) (split analysis [10, 10]) = Inr parts"
    and st: "story = [t1, t2, Spacer 1 30, d, l, Spacer 1 30, v, Spacer 1 10]
          @ concat charts
          @ [s, summary_table physical, Spacer 1 20, summary_table mental, Spacer 1 30,
             dt, Spacer 1 10]
          @ concat parts"
    unfolding create_pdf_story_def bindE_Inr by blast
  have "tables_of (concat charts) = []"
    using mapE_tables[OF chart_block_tables ch] .
  moreover have "tables_of (concat parts) = []"
    using mapE_tables[OF section_block_tables pa] .
  ultimately have "tables_of story = [physical, mental]"
    using ps ps2 by (auto simp: st tables_of_append summary_table_def dest!: new_paragraph_Inr)
  with ph me show ?thesis by blast
qed

lemma str_nat_digit: "n < 10 \<Longrightarrow> str_nat n = [48 + n]"
  by (subst str_nat.simps) simp

lemma sample_physical:
  "physical_data test_library sample_before sample_after = Inr
     [map (PStr \<circ> lit) [''Metric'', ''Before'', ''After'', ''Change''],
      map (PStr \<circ> lit) [''Flexibility'', ''2/10'', ''5/10'', ''+3''],
      map (PStr \<circ> lit) [''Strength'', ''3/10'', ''3/10'', ''+0''],
      map (PStr \<circ> lit) [''Balance'', ''4/10'', ''6/10'', ''+2''],
      map (PStr \<circ> lit) [''Posture'', ''5/10'', ''7/10'', ''+2''],
      map (PStr \<circ> lit) [''Core Strength'', ''5/10'', ''4/10'', ''-1'']]"
  by (simp add: physical_data_def physical_rows_def summary_row_def summary_header_def bindE_def
      getitem_def sample_before_def sample_after_def py_sub_def py_str_def str_int_def
      format_plus_d_def str_nat_digit lit_def)

lemma sample_mental:
  "mental_data test_library sample_before sample_after = Inr
     [map (PStr \<circ> lit) [''Metric'', ''Before'', ''After'', ''Change''],
      map (PStr \<circ> lit) [''Stress'', ''8/10'', ''6/10'', ''-2''],
      map (PStr \<circ> lit) [''Energy'', ''4/10'', ''7/10'', ''+3''],
      map (PStr \<circ> lit) [''Focus'', ''5/10'', ''5/10'', ''+0''],
      map (PStr \<circ> lit) [''Sleep'', ''6/10'', ''8/10'', ''+2''],
      map (PStr \<circ> lit) [''Mindfulness'', ''3/10'', ''10/10'', ''+7'']]"
  by (simp add: mental_data_def mental_rows_def summary_row_def summary_header_def bindE_def
      getitem_def sample_before_def sample_after_def py_sub_def py_str_def str_int_def
      format_plus_d_def str_nat_digit lit_def str_nat.simps[of 10])

lemma sample_parts:
  "mapE (section_block test_library) (split sample_analysis [10, 10]) =
     Inr [[Paragraph (lit ''1. SUMMARY'') CustomHeading2, Paragraph (lit ''Steady progress.'') CustomBody,
           Spacer 1 10],
          [Paragraph (lit ''Keep going.'') CustomBody, Spacer 1 10]]"
  by (simp add: sample_analysis_def split_def lit_def section_block_def strip_def isspace_def
      test_library_def bindE_def new_paragraph_def contains_def sublist_code)

lemma sample_story:
  "\<exists>story. create_pdf_story test_library main_client_info sample_analysis sample_before sample_after
      sample_figure sample_figure = Inr story"
  by (simp add: create_pdf_story_def sample_parts sample_physical sample_mental bindE_def
      new_paragraph_def chart_block_def getitem_def main_client_info_def)
    (simp add: test_library_def)

lemma digits_value_snoc: "digits_value (ds @ [d]) = 10 * digits_value ds + (d - 48)"
  by (simp add: digits_value_def)

lemma digits_value_str_nat: "digits_value (str_nat n) = n"
proof (induction n rule: str_nat.induct)
  case (1 n)
  show ?case
  proof (cases "n < 10")
    case True
    then show ?thesis by (simp add: str_nat_digit digits_value_def)
  next
    case False
    with 1 have "digits_value (str_nat (n div 10)) = n div 10" by simp
    with False show ?thesis
      by (subst str_nat.simps) (simp add: digits_value_snoc)
  qed
qed

lemma signed_value_format: "signed_value (format_plus_d n) = n"
  by (simp add: signed_value_def format_plus_d_def digits_value_str_nat)

text \<open>
  C1, as claimed (one row per physical metric, ten of them, and one per mental metric,
  seven of them), fails on the sample assessment: each summary table has a header and
  five rows, and pain, breathing, spine, hips, shoulders, anxiety and mood have none.
\<close>

theorem summary_tables_counterexample:
  "physical_data test_library sample_before sample_after = Inr
     [map (PStr \<circ> lit) [''Metric'', ''Before'', ''After'', ''Change''],
      map (PStr \<circ> lit) [''Flexibility'', ''2/10'', ''5/10'', ''+3''],
      map (PStr \<circ> lit) [''Strength'', ''3/10'', ''3/10'', ''+0''],
      map (PStr \<circ> lit) [''Balance'', ''4/10'', ''6/10'', ''+2''],
      map (PStr \<circ> lit) [''Posture'', ''5/10'', ''7/10'', ''+2''],
      map (PStr \<circ> lit) [''Core Strength'', ''5/10'', ''4/10'', ''-1'']] \<and>
   mental_data test_library sample_before sample_after = Inr
     [map (PStr \<circ> lit) [''Metric'', ''Before'', ''After'', ''Change''],
      map (PStr \<circ> lit) [''Stress'', ''8/10'', ''6/10'', ''-2''],
      map (PStr \<circ> lit) [''Energy'', ''4/10'', ''7/10'', ''+3''],
      map (PStr \<circ> lit) [''Focus'', ''5/10'', ''5/10'', ''+0''],
      map (PStr \<circ> lit) [''Sleep'', ''6/10'', ''8/10'', ''+2''],
      map (PStr \<circ> lit) [''Mindfulness'', ''3/10'', ''10/10'', ''+7'']] \<and>
   map (\<lambda>rows. length rows - 1)
     (tables_of (projr (create_pdf_story test_library main_client_info sample_analysis
        sample_before sample_after sample_figure sample_figure))) = [5, 5] \<and>
   [length physical_fields, length mental_fields] = [10, 7]"
proof -
  obtain story where s: "create_pdf_story test_library main_client_info sample_analysis
        sample_before sample_after sample_figure sample_figure = Inr story"
    using sample_story by blast
  from story_tables[OF s] have "tables_of story =
     [projr (physical_data test_library sample_before sample_after),
      projr (mental_data test_library sample_before sample_after)]"
    by auto
  then show ?thesis
    by (simp add: s sample_physical sample_mental physical_fields_def mental_fields_def)
qed

text \<open>
  C1, amended: whenever \<open>create_pdf\<close> builds its story, the story holds exactly two
  tables, each a header row followed by five rows: Flexibility, Strength, Balance,
  Posture and Core Strength in the first, Stress, Energy, Focus, Sleep and Mindfulness in
  the second; each row shows the before and the after value of its field as
  \<open>value/10\<close>. The other seven score fields have no row.
\<close>

theorem summary_tables_rows:
  assumes "create_pdf_story lib client_info analysis before_data after_data fig1 fig2 = Inr story"
  shows "map (map (take 3)) (tables_of story) =
    [[map (PStr \<circ> lit) [''Metric'', ''Before'', ''After''],
      [PStr (lit ''Flexibility''),
       PStr (str_int (score before_data ''flexibility'') @ lit ''/10''),
       PStr (str_int (score after_data ''flexibility'') @ lit ''/10'')],
      [PStr (lit ''Strength''),
       PStr (str_int (score before_data ''strength'') @ lit ''/10''),
       PStr (str_int (score after_data ''strength'') @ lit ''/10'')],
      [PStr (lit ''Balance''),
       PStr (str_int (score before_data ''balance'') @ lit ''/10''),
       PStr (str_int (score after_data ''balance'') @ lit ''/10'')],
      [PStr (lit ''Posture''),
       PStr (str_int (score before_data ''posture'') @ lit ''/10''),
       PStr (str_int (score after_data ''posture'') @ lit ''/10'')],
      [PStr (lit ''Core Strength''),
       PStr (str_int (score before_data ''core'') @ lit ''/10''),
       PStr (str_int (score after_data ''core'') @ lit ''/10'')]],
     [map (PStr \<circ> lit) [''Metric'', ''Before'', ''After''],
      [PStr (lit ''Stress''),
       PStr (str_int (score before_data ''stress'') @ lit ''/10''),
       PStr (str_int (score after_data ''stress'') @ lit ''/10'')],
      [PStr (lit ''Energy''),
       PStr (str_int (score before_data ''energy'') @ lit ''/10''),
       PStr (str_int (score after_data ''energy'') @ lit ''/10'')],
      [PStr (lit ''Focus''),
       PStr (str_int (score before_data ''focus'') @ lit ''/10''),
       PStr (str_int (score after_data ''focus'') @ lit ''/10'')],
      [PStr (lit ''Sleep''),
       PStr (str_int (score before_data ''sleep'') @ lit ''/10''),
       PStr (str_int (score after_data ''sleep'') @ lit ''/10'')],
      [PStr (lit ''Mindfulness''),
       PStr (str_int (score before_data ''mindfulness'') @ lit ''/10''),
       PStr (str_int (score after_data ''mindfulness'') @ lit ''/10'')]]]"
proof -
  from story_tables[OF assms] obtain physical mental where
    p: "physical_data lib before_data after_data = Inr physical" and
    m: "mental_data lib before_data after_data = Inr mental" and
    t: "tables_of story = [physical, mental]"
    by blast
  show ?thesis
    unfolding t physical_data_Inr[OF p] mental_data_Inr[OF m]
    by (simp add: physical_rows_def mental_rows_def summary_header_def)
qed

theorem summary_tables_rows_witness:
  "\<exists>story. create_pdf_story test_library main_client_info sample_analysis sample_before sample_after
      sample_figure sample_figure = Inr story \<and>
    map (map (take 3)) (tables_of story) =
    [[map (PStr \<circ> lit) [''Metric'', ''Before'', ''After''],
      map (PStr \<circ> lit) [''Flexibility'', ''2/10'', ''5/10''],
      map (PStr \<circ> lit) [''Strength'', ''3/10'', ''3/10''],
      map (PStr \<circ> lit) [''Balance'', ''4/10'', ''6/10''],
      map (PStr \<circ> lit) [''Posture'', ''5/10'', ''7/10''],
      map (PStr \<circ> lit) [''Core Strength'', ''5/10'', ''4/10'']],
     [map (PStr \<circ> lit) [''Metric'', ''Before'', ''After''],
      map (PStr \<circ> lit) [''Stress'', ''8/10'', ''6/10''],
      map (PStr \<circ> lit) [''Energy'', ''4/10'', ''7/10''],
      map (PStr \<circ> lit) [''Focus'', ''5/10'', ''5/10''],
      map (PStr \<circ> lit) [''Sleep'', ''6/10'', ''8/10''],
      map (PStr \<circ> lit) [''Mindfulness'', ''3/10'', ''10/10'']]]"
proof -
  obtain story where s: "create_pdf_story test_library main_client_info sample_analysis
        sample_before sample_after sample_figure sample_figure = Inr story"
    using sample_story by blast
  from summary_tables_rows[OF s] have t: "map (map (take 3)) (tables_of story) =
    [[map (PStr \<circ> lit) [''Metric'', ''Before'', ''After''],
      map (PStr \<circ> lit) [''Flexibility'', ''2/10'', ''5/10''],
      map (PStr \<circ> lit) [''Strength'', ''3/10'', ''3/10''],
      map (PStr \<circ> lit) [''Balance'', ''4/10'', ''6/10''],
      map (PStr \<circ> lit) [''Posture'', ''5/10'', ''7/10''],
      map (PStr \<circ> lit) [''Core Strength'', ''5/10'', ''4/10'']],
     [map (PStr \<circ> lit) [''Metric'', ''Before'', ''After''],
      map (PStr \<circ> lit) [''Stress'', ''8/10'', ''6/10''],
      map (PStr \<circ> lit) [''Energy'', ''4/10'', ''7/10''],
      map (PStr \<circ> lit) [''Focus'', ''5/10'', ''5/10''],
      map (PStr \<circ> lit) [''Sleep'', ''6/10'', ''8/10''],
      map (PStr \<circ> lit) [''Mindfulness'', ''3/10'', ''10/10'']]]"
    by (simp add: score_def sample_before_def sample_after_def str_int_def str_nat_digit
        str_nat.simps[of 10] lit_def)
  show ?thesis
    by (rule exI[of _ story]) (rule conjI[OF s t])
qed

text \<open>
  C10: in both summary tables the Change cell of every listed metric is the difference
  after minus before of that metric's values, printed by \<open>format_plus_d\<close>: a sign, always
  (\<open>+\<close> from zero up, \<open>-\<close> below), then the decimal digits, so that reading the cell back
  gives the exact difference; \<open>+3\<close>, \<open>-2\<close> and \<open>+0\<close> are examples.
\<close>

theorem summary_tables_change:
  assumes "create_pdf_story lib client_info analysis before_data after_data fig1 fig2 = Inr story"
  shows "map (map (\<lambda>row. row ! 3) \<circ> tl) (tables_of story) =
    [[PStr (format_plus_d (score after_data ''flexibility'' - score before_data ''flexibility'')),
      PStr (format_plus_d (score after_data ''strength'' - score before_data ''strength'')),
      PStr (format_plus_d (score after_data ''balance'' - score before_data ''balance'')),
      PStr (format_plus_d (score after_data ''posture'' - score before_data ''posture'')),
      PStr (format_plus_d (score after_data ''core'' - score before_data ''core''))],
     [PStr (format_plus_d (score after_data ''stress'' - score before_data ''stress'')),
      PStr (format_plus_d (score after_data ''energy'' - score before_data ''energy'')),
      PStr (format_plus_d (score after_data ''focus'' - score before_data ''focus'')),
      PStr (format_plus_d (score after_data ''sleep'' - score before_data ''sleep'')),
      PStr (format_plus_d (score after_data ''mindfulness'' - score before_data ''mindfulness''))]] \<and>
    signed_value (format_plus_d n) = n \<and>
    hd (format_plus_d n) = (if n < 0 then 45 else 43) \<and>
    format_plus_d 3 = lit ''+3'' \<and> format_plus_d (- 2) = lit ''-2'' \<and> format_plus_d 0 = lit ''+0''"
proof -
  from story_tables[OF assms] obtain physical mental where
    p: "physical_data lib before_data after_data = Inr physical" and
    m: "mental_data lib before_data after_data = Inr mental" and
    t: "tables_of story = [physical, mental]"
    by blast
  have "map (map (\<lambda>row. row ! 3) \<circ> tl) (tables_of story) =
    [[PStr (format_plus_d (score after_data ''flexibility'' - score before_data ''flexibility'')),
      PStr (format_plus_d (score after_data ''strength'' - score before_data ''strength'')),
      PStr (format_plus_d (score after_data ''balance'' - score before_data ''balance'')),
      PStr (format_plus_d (score after_data ''posture'' - score before_data ''posture'')),
      PStr (format_plus_d (score after_data ''core'' - score before_data ''core''))],
     [PStr (format_plus_d (score after_data ''stress'' - score before_data ''stress'')),
      PStr (format_plus_d (score after_data ''energy'' - score before_data ''energy'')),
      PStr (format_plus_d (score after_data ''focus'' - score before_data ''focus'')),
      PStr (format_plus_d (score after_data ''sleep'' - score before_data ''sleep'')),
      PStr (format_plus_d (score after_data ''mindfulness'' - score before_data ''mindfulness''))]]"
    unfolding t physical_data_Inr[OF p] mental_data_Inr[OF m]
    by (simp add: physical_rows_def mental_rows_def)
  moreover have "hd (format_plus_d n) = (if n < 0 then 45 else 43)"
    by (simp add: format_plus_d_def)
  moreover have "format_plus_d 3 = lit ''+3''" "format_plus_d (- 2) = lit ''-2''"
      "format_plus_d 0 = lit ''+0''"
    by (simp_all add: format_plus_d_def str_nat_digit lit_def)
  ultimately show ?thesis
    by (simp add: signed_value_format)
qed

theorem summary_tables_change_witness:
  "\<exists>story. create_pdf_story test_library main_client_info sample_analysis sample_before sample_after
      sample_figure sample_figure = Inr story \<and>
    map (map (\<lambda>row. row ! 3) \<circ> tl) (tables_of story) =
      [map (PStr \<circ> lit) [''+3'', ''+0'', ''+2'', ''+2'', ''-1''],
       map (PStr \<circ> lit) [''-2'', ''+3'', ''+0'', ''+2'', ''+7'']]"
proof -
  obtain story where s: "create_pdf_story test_library main_client_info sample_analysis
        sample_before sample_after sample_figure sample_figure = Inr story"
    using sample_story by blast
  from summary_tables_change[OF s] have t: "map (map (\<lambda>row. row ! 3) \<circ> tl) (tables_of story) =
      [map (PStr \<circ> lit) [''+3'', ''+0'', ''+2'', ''+2'', ''-1''],
       map (PStr \<circ> lit) [''-2'', ''+3'', ''+0'', ''+2'', ''+7'']]"
    by (simp add: score_def sample_before_def sample_after_def format_plus_d_def str_nat_digit
        lit_def)
  show ?thesis
    by (rule exI[of _ story]) (rule conjI[OF s t])
qed

section \<open>Properties of the prompts and the completion call\<close>

lemma eval_piece_agree:
  assumes "\<And>src. \<forall>k\<in>set (fields_of [p] src). dicts src k = dicts' src k"
  shows "eval_piece pr dicts p = eval_piece pr dicts' p"
proof (cases p)
  case (Lit s)
  then show ?thesis by (simp add: eval_piece_def)
next
  case (Field src k)
  with assms[of src] show ?thesis by (simp add: eval_piece_def getitem_def)
next
  case (Joined src k)
  with assms[of src] show ?thesis by (simp add: eval_piece_def getitem_def)
qed

lemma fields_of_Cons: "set (fields_of (p # ps) src) = set (fields_of [p] src) \<union> set (fields_of ps src)"
  by (cases p) auto

lemma mapE_agree:
  "(\<And>src. \<forall>k\<in>set (fields_of ps src). dicts src k = dicts' src k) \<Longrightarrow>
     mapE (eval_piece pr dicts) ps = mapE (eval_piece pr dicts') ps"
proof (induction ps)
  case Nil
  show ?case by simp
next
  case (Cons p ps)
  have "eval_piece pr dicts p = eval_piece pr dicts' p"
    by (rule eval_piece_agree) (use Cons.prems in \<open>auto simp: fields_of_Cons[of p ps]\<close>)
  moreover have "mapE (eval_piece pr dicts) ps = mapE (eval_piece pr dicts') ps"
    by (rule Cons.IH) (use Cons.prems in \<open>auto simp: fields_of_Cons[of p ps]\<close>)
  ultimately show ?case by simp
qed

lemma fstring_agree:
  "(\<And>src. \<forall>k\<in>set (fields_of ps src). dicts src k = dicts' src k) \<Longrightarrow>
     fstring pr dicts ps = fstring pr dicts' ps"
  using mapE_agree[of ps dicts dicts' pr] by (simp add: fstring_def)

lemma analysis_fields:
  "fields_of analysis_template Client =
     [''name'', ''age'', ''occupation'', ''previous_yoga_experience'', ''primary_goals'',
      ''work_activity_level'', ''exercise_routine'', ''sleep_hours'', ''diet_type'',
      ''stress_sources'']"
  "set (fields_of analysis_template Before) = set score_and_text_keys"
  "set (fields_of analysis_template After) = set (score_keys @ [''notes''])"
  by (simp_all add: analysis_template_def score_and_text_keys_def score_keys_def
      physical_fields_def mental_fields_def insert_commute)

lemma dietary_fields:
  "fields_of dietary_template Client =
     [''name'', ''height'', ''weight'', ''dietary_restrictions'', ''health_goals'',
      ''food_allergies'', ''exercise_routine'']"
  "fields_of dietary_template Before = []"
  "fields_of dietary_template After = []"
  by (simp_all add: dietary_template_def)


text \<open>
  C2: each prompt is a function of its input dictionaries and of nothing else (the model
  has no clock, no random source and no state in it), and it reads only the listed
  fields: two runs of \<open>generate_analysis\<close> whose inputs hold the same under the ten
  client keys, the twenty keys of the before record and the eighteen keys of the after
  record build the same prompt and send the same request; two runs of
  \<open>generate_dietary_plan\<close> whose \<open>client_info\<close> hold the same under its seven keys build
  the same prompt, whatever the two assessment records are.
\<close>

theorem prompts_depend_on_listed_fields:
  "(agree_on [''name'', ''age'', ''occupation'', ''previous_yoga_experience'', ''primary_goals'',
       ''work_activity_level'', ''exercise_routine'', ''sleep_hours'', ''diet_type'',
       ''stress_sources''] client_info client_info' \<longrightarrow>
    agree_on score_and_text_keys before_data before_data' \<longrightarrow>
    agree_on (score_keys @ [''notes'']) after_data after_data' \<longrightarrow>
      analysis_prompt lib before_data after_data client_info =
        analysis_prompt lib before_data' after_data' client_info' \<and>
      generate_analysis lib groq_client before_data after_data client_info sent =
        generate_analysis lib groq_client before_data' after_data' client_info' sent) \<and>
   (agree_on [''name'', ''height'', ''weight'', ''dietary_restrictions'', ''health_goals'',
       ''food_allergies'', ''exercise_routine''] client_info client_info' \<longrightarrow>
      dietary_prompt lib client_info before_data after_data =
        dietary_prompt lib client_info' before_data' after_data' \<and>
      generate_dietary_plan lib groq_client client_info before_data after_data sent =
        generate_dietary_plan lib groq_client client_info' before_data' after_data' sent)"
proof (intro conjI impI)
  assume c: "agree_on [''name'', ''age'', ''occupation'', ''previous_yoga_experience'',
       ''primary_goals'', ''work_activity_level'', ''exercise_routine'', ''sleep_hours'',
       ''diet_type'', ''stress_sources''] client_info client_info'"
    and b: "agree_on score_and_text_keys before_data before_data'"
    and a: "agree_on (score_keys @ [''notes'']) after_data after_data'"
  have "\<forall>k\<in>set (fields_of analysis_template src).
      arguments client_info before_data after_data src k =
      arguments client_info' before_data' after_data' src k" for src
  proof (cases src)
    case Client
    with c show ?thesis
      by (simp add: arguments_def analysis_fields agree_on_def list_all_iff)
  next
    case Before
    with b show ?thesis
      by (simp add: arguments_def analysis_fields agree_on_def list_all_iff)
  next
    case After
    with a show ?thesis
      by (simp add: arguments_def analysis_fields agree_on_def list_all_iff)
  qed
  then show p: "analysis_prompt lib before_data after_data client_info =
      analysis_prompt lib before_data' after_data' client_info'"
    unfolding analysis_prompt_def by (rule fstring_agree)
  show "generate_analysis lib groq_client before_data after_data client_info sent =
      generate_analysis lib groq_client before_data' after_data' client_info' sent"
    by (simp add: generate_analysis_def p)
next
  assume c: "agree_on [''name'', ''height'', ''weight'', ''dietary_restrictions'',
       ''health_goals'', ''food_allergies'', ''exercise_routine''] client_info client_info'"
  have "\<forall>k\<in>set (fields_of dietary_template src).
      arguments client_info before_data after_data src k =
      arguments client_info' before_data' after_data' src k" for src
  proof (cases src)
    case Client
    with c show ?thesis
      by (simp add: arguments_def dietary_fields agree_on_def list_all_iff)
  next
    case Before
    then show ?thesis by (simp add: dietary_fields)
  next
    case After
    then show ?thesis by (simp add: dietary_fields)
  qed
  then show p: "dietary_prompt lib client_info before_data after_data =
      dietary_prompt lib client_info' before_data' after_data'"
    unfolding dietary_prompt_def by (rule fstring_agree)
  show "generate_dietary_plan lib groq_client client_info before_data after_data sent =
      generate_dietary_plan lib groq_client client_info' before_data' after_data' sent"
    by (simp add: generate_dietary_plan_def p)
qed

theorem prompts_depend_on_listed_fields_witness:
  "agree_on [''name'', ''age'', ''occupation'', ''previous_yoga_experience'', ''primary_goals'',
       ''work_activity_level'', ''exercise_routine'', ''sleep_hours'', ''diet_type'',
       ''stress_sources''] main_client_info (main_client_info(''medical_conditions'' \<mapsto> PStr (lit ''asthma''))) \<and>
   agree_on score_and_text_keys sample_before (sample_before(''date'' \<mapsto> PStr (lit ''May''))) \<and>
   agree_on (score_keys @ [''notes'']) sample_after (sample_after(''limitations'' \<mapsto> PStr (lit ''wrist''))) \<and>
   sample_after ''limitations'' \<noteq> (sample_after(''limitations'' \<mapsto> PStr (lit ''wrist''))) ''limitations'' \<and>
   analysis_prompt test_library sample_before sample_after main_client_info =
     analysis_prompt test_library (sample_before(''date'' \<mapsto> PStr (lit ''May'')))
       (sample_after(''limitations'' \<mapsto> PStr (lit ''wrist'')))
       (main_client_info(''medical_conditions'' \<mapsto> PStr (lit ''asthma''))) \<and>
   agree_on [''name'', ''height'', ''weight'', ''dietary_restrictions'', ''health_goals'',
       ''food_allergies'', ''exercise_routine''] main_client_info (main_client_info(''age'' \<mapsto> PInt 41)) \<and>
   main_client_info ''age'' \<noteq> (main_client_info(''age'' \<mapsto> PInt 41)) ''age'' \<and>
   dietary_prompt test_library main_client_info sample_before sample_after =
     dietary_prompt test_library (main_client_info(''age'' \<mapsto> PInt 41)) default_data default_data"
proof -
  have c: "agree_on [''name'', ''age'', ''occupation'', ''previous_yoga_experience'', ''primary_goals'',
       ''work_activity_level'', ''exercise_routine'', ''sleep_hours'', ''diet_type'',
       ''stress_sources''] main_client_info (main_client_info(''medical_conditions'' \<mapsto> PStr (lit ''asthma'')))"
    by (simp add: agree_on_def)
  have b: "agree_on score_and_text_keys sample_before (sample_before(''date'' \<mapsto> PStr (lit ''May'')))"
    by (simp add: agree_on_def score_and_text_keys_def score_keys_def physical_fields_def
        mental_fields_def)
  have a: "agree_on (score_keys @ [''notes'']) sample_after (sample_after(''limitations'' \<mapsto> PStr (lit ''wrist'')))"
    by (simp add: agree_on_def score_keys_def physical_fields_def mental_fields_def)
  have d: "agree_on [''name'', ''height'', ''weight'', ''dietary_restrictions'', ''health_goals'',
       ''food_allergies'', ''exercise_routine''] main_client_info (main_client_info(''age'' \<mapsto> PInt 41))"
    by (simp add: agree_on_def)
  have n1: "sample_after ''limitations'' \<noteq> (sample_after(''limitations'' \<mapsto> PStr (lit ''wrist''))) ''limitations''"
    by (simp add: sample_after_def lit_def)
  have n2: "main_client_info ''age'' \<noteq> (main_client_info(''age'' \<mapsto> PInt 41)) ''age''"
    by (simp add: main_client_info_def)
  from prompts_depend_on_listed_fields[where client_info = main_client_info
      and client_info' = "main_client_info(''medical_conditions'' \<mapsto> PStr (lit ''asthma''))"
      and before_data = sample_before
      and before_data' = "sample_before(''date'' \<mapsto> PStr (lit ''May''))"
      and after_data = sample_after
      and after_data' = "sample_after(''limitations'' \<mapsto> PStr (lit ''wrist''))"
      and lib = test_library]
    prompts_depend_on_listed_fields[where client_info = main_client_info
      and client_info' = "main_client_info(''age'' \<mapsto> PInt 41)"
      and before_data = sample_before and before_data' = default_data
      and after_data = sample_after and after_data' = default_data
      and lib = test_library]
    c b a d n1 n2
  show ?thesis by blast
qed

lemma eval_piece_readable: "readable dicts p \<Longrightarrow> \<exists>s. eval_piece pr dicts p = Inr s"
  by (cases p)
    (auto simp: readable_def eval_piece_def getitem_def bindE_def py_join_def
      split: option.splits pyval.splits)

lemma mapE_readable:
  "list_all (readable dicts) ps \<Longrightarrow> \<exists>ss. mapE (eval_piece pr dicts) ps = Inr ss"
proof (induction ps)
  case Nil
  show ?case by simp
next
  case (Cons p ps)
  then obtain s ss where "eval_piece pr dicts p = Inr s" "mapE (eval_piece pr dicts) ps = Inr ss"
    using eval_piece_readable[of dicts p pr] by auto
  then show ?case by (simp add: bindE_def)
qed

lemma fstring_readable:
  "list_all (readable dicts) ps \<Longrightarrow> \<exists>p. fstring pr dicts ps = Inr p"
  using mapE_readable[of dicts ps pr] by (auto simp: fstring_def bindE_def)

lemma send_prompt_Inr:
  "send_prompt lib groq_client (Inr p) sent =
     (bindE (chat_completions_create lib groq_client (completion_request p)) first_content,
      sent @ [completion_request p])"
  by (simp add: send_prompt_def)

lemma sample_readable:
  "list_all (readable (arguments main_client_info sample_before sample_after)) analysis_template"
  by (simp add: analysis_template_def readable_def arguments_def main_client_info_def
      sample_before_def sample_after_def)

lemma sample_diet_readable:
  "list_all (readable (arguments (diet_client_info main_client_info sample_diet_values)
      sample_before sample_after)) dietary_template"
  by (simp add: dietary_template_def readable_def arguments_def main_client_info_def
      diet_client_info_def sample_diet_values_def)

text \<open>
  C4: on inputs whose replacement fields can all be evaluated, \<open>generate_analysis\<close> and
  \<open>generate_dietary_plan\<close> each send exactly one request, built from the prompt; every
  request has the one user message, the model
  \<open>meta-llama/llama-4-maverick-17b-128e-instruct\<close>, temperature 0.7, at most 3000
  tokens, top-p 0.95 and no streaming, whatever the prompt; and the result is the content
  of the first choice of the response.
\<close>

theorem one_completion_call:
  "(list_all (readable (arguments client_info before_data after_data)) analysis_template \<longrightarrow>
     (\<exists>prompt. analysis_prompt lib before_data after_data client_info = Inr prompt \<and>
        snd (generate_analysis lib groq_client before_data after_data client_info sent) =
          sent @ [completion_request prompt] \<and>
        fst (generate_analysis lib groq_client before_data after_data client_info sent) =
          bindE (chat_completions_create lib groq_client (completion_request prompt)) first_content)) \<and>
   (list_all (readable (arguments client_info before_data after_data)) dietary_template \<longrightarrow>
     (\<exists>prompt. dietary_prompt lib client_info before_data after_data = Inr prompt \<and>
        snd (generate_dietary_plan lib groq_client client_info before_data after_data sent) =
          sent @ [completion_request prompt] \<and>
        fst (generate_dietary_plan lib groq_client client_info before_data after_data sent) =
          bindE (chat_completions_create lib groq_client (completion_request prompt)) first_content)) \<and>
   messages (completion_request p) = [(lit ''user'', p)] \<and>
   model (completion_request p) = lit ''meta-llama/llama-4-maverick-17b-128e-instruct'' \<and>
   temperature (completion_request p) = 7 / 10 \<and>
   max_tokens (completion_request p) = 3000 \<and>
   top_p (completion_request p) = 95 / 100 \<and>
   stream (completion_request p) = False \<and>
   bindE (Inr \<lparr>choices = c # cs\<rparr>) first_content = Inr (message_content c)"
proof (intro conjI impI)
  assume "list_all (readable (arguments client_info before_data after_data)) analysis_template"
  then obtain prompt where "analysis_prompt lib before_data after_data client_info = Inr prompt"
    unfolding analysis_prompt_def using fstring_readable by blast
  then show "\<exists>prompt. analysis_prompt lib before_data after_data client_info = Inr prompt \<and>
        snd (generate_analysis lib groq_client before_data after_data client_info sent) =
          sent @ [completion_request prompt] \<and>
        fst (generate_analysis lib groq_client before_data after_data client_info sent) =
          bindE (chat_completions_create lib groq_client (completion_request prompt)) first_content"
    by (simp add: generate_analysis_def send_prompt_Inr)
next
  assume "list_all (readable (arguments client_info before_data after_data)) dietary_template"
  then obtain prompt where "dietary_prompt lib client_info before_data after_data = Inr prompt"
    unfolding dietary_prompt_def using fstring_readable by blast
  then show "\<exists>prompt. dietary_prompt lib client_info before_data after_data = Inr prompt \<and>
        snd (generate_dietary_plan lib groq_client client_info before_data after_data sent) =
          sent @ [completion_request prompt] \<and>
        fst (generate_dietary_plan lib groq_client client_info before_data after_data sent) =
          bindE (chat_completions_create lib groq_client (completion_request prompt)) first_content"
    by (simp add: generate_dietary_plan_def send_prompt_Inr)
qed (simp_all add: completion_request_def bindE_def first_content_def)

theorem one_completion_call_witness:
  "list_all (readable (arguments main_client_info sample_before sample_after)) analysis_template \<and>
   list_all (readable (arguments (diet_client_info main_client_info sample_diet_values)
      sample_before sample_after)) dietary_template \<and>
   length (snd (generate_analysis test_library (Groq (PStr (lit ''gsk'')))
      sample_before sample_after main_client_info [])) = 1 \<and>
   fst (generate_analysis test_library (Groq (PStr (lit ''gsk'')))
      sample_before sample_after main_client_info []) = Inr (lit ''1. SUMMARY\<newline>Steady progress.'') \<and>
   length (snd (generate_dietary_plan test_library (Groq (PStr (lit ''gsk'')))
      (diet_client_info main_client_info sample_diet_values) sample_before sample_after [])) = 1 \<and>
   fst (generate_dietary_plan test_library (Groq (PStr (lit ''gsk'')))
      (diet_client_info main_client_info sample_diet_values) sample_before sample_after []) =
     Inr (lit ''1. SUMMARY\<newline>Steady progress.'')"
proof -
  note a = sample_readable and d = sample_diet_readable
  from one_completion_call[where client_info = main_client_info and before_data = sample_before
      and after_data = sample_after and lib = test_library and sent = "[]"
      and groq_client = "Groq (PStr (lit ''gsk''))"] a
  obtain p1 where
    "snd (generate_analysis test_library (Groq (PStr (lit ''gsk''))) sample_before sample_after
       main_client_info []) = [] @ [completion_request p1]"
    "fst (generate_analysis test_library (Groq (PStr (lit ''gsk''))) sample_before sample_after
       main_client_info []) =
     bindE (chat_completions_create test_library (Groq (PStr (lit ''gsk''))) (completion_request p1))
       first_content"
    by blast
  then have r1: "length (snd (generate_analysis test_library (Groq (PStr (lit ''gsk'')))
      sample_before sample_after main_client_info [])) = 1"
    "fst (generate_analysis test_library (Groq (PStr (lit ''gsk'')))
      sample_before sample_after main_client_info []) = Inr (lit ''1. SUMMARY\<newline>Steady progress.'')"
    by (simp_all add: test_library_def bindE_def first_content_def)
  from one_completion_call[where client_info = "diet_client_info main_client_info sample_diet_values"
      and before_data = sample_before
      and after_data = sample_after and lib = test_library and sent = "[]"
      and groq_client = "Groq (PStr (lit ''gsk''))"] d
  obtain p2 where
    "snd (generate_dietary_plan test_library (Groq (PStr (lit ''gsk'')))
      (diet_client_info main_client_info sample_diet_values) sample_before sample_after []) =
       [] @ [completion_request p2]"
    "fst (generate_dietary_plan test_library (Groq (PStr (lit ''gsk'')))
      (diet_client_info main_client_info sample_diet_values) sample_before sample_after []) =
     bindE (chat_completions_create test_library (Groq (PStr (lit ''gsk''))) (completion_request p2))
       first_content"
    by blast
  then have r2: "length (snd (generate_dietary_plan test_library (Groq (PStr (lit ''gsk'')))
      (diet_client_info main_client_info sample_diet_values) sample_before sample_after [])) = 1"
    "fst (generate_dietary_plan test_library (Groq (PStr (lit ''gsk'')))
      (diet_client_info main_client_info sample_diet_values) sample_before sample_after []) =
     Inr (lit ''1. SUMMARY\<newline>Steady progress.'')"
    by (simp_all add: test_library_def bindE_def first_content_def)
  from a d r1 r2 show ?thesis by (intro conjI)
qed

section \<open>Properties of the API key lookup\<close>



section \<open>Properties of the button handlers\<close>

lemma dict_update_apply:
  "dict_update d kvs k = (if k \<in> set (map fst kvs) then map_of kvs k else d k)"
  by (auto simp: dict_update_def map_add_def map_of_eq_None_iff split: option.splits
      dest: map_of_SomeD intro: rev_image_eqI)

lemma before_update_keys: "map fst (before_update v) = score_and_text_keys"
  by (simp add: before_update_def score_and_text_keys_def score_keys_def physical_fields_def
      mental_fields_def)

lemma after_update_keys: "map fst (after_update v) = score_keys @ [''notes'']"
  by (simp add: after_update_def score_keys_def physical_fields_def mental_fields_def)

text \<open>
  C8: Save Before Assessment overwrites, in \<open>before_data\<close>, exactly the twenty keys of
  its update, each with the value of its widget, and leaves every other key, \<open>after_data\<close>
  and \<open>client_info\<close> as they were; Save After Assessment overwrites, in \<open>after_data\<close>,
  exactly the eighteen keys of its update, never \<open>limitations\<close> or \<open>symptoms\<close>, and
  leaves \<open>before_data\<close> and \<open>client_info\<close> as they were.
\<close>

theorem save_buttons_frame:
  "ss_before_data (w_session (snd (save_before_assessment v w))) k =
     (if k \<in> set score_and_text_keys then map_of (before_update v) k
      else ss_before_data (w_session w) k) \<and>
   ss_after_data (w_session (snd (save_before_assessment v w))) = ss_after_data (w_session w) \<and>
   ss_client_info (w_session (snd (save_before_assessment v w))) = ss_client_info (w_session w) \<and>
   ss_after_data (w_session (snd (save_after_assessment v' w))) k =
     (if k \<in> set (score_keys @ [''notes'']) then map_of (after_update v') k
      else ss_after_data (w_session w) k) \<and>
   ss_after_data (w_session (snd (save_after_assessment v' w))) ''limitations'' =
     ss_after_data (w_session w) ''limitations'' \<and>
   ss_after_data (w_session (snd (save_after_assessment v' w))) ''symptoms'' =
     ss_after_data (w_session w) ''symptoms'' \<and>
   ss_before_data (w_session (snd (save_after_assessment v' w))) = ss_before_data (w_session w) \<and>
   ss_client_info (w_session (snd (save_after_assessment v' w))) = ss_client_info (w_session w) \<and>
   score_and_text_keys =
     [''flexibility'', ''strength'', ''balance'', ''pain'', ''posture'', ''breathing'', ''spine'',
      ''hips'', ''shoulders'', ''core'', ''stress'', ''energy'', ''focus'', ''sleep'', ''anxiety'',
      ''mood'', ''mindfulness'', ''notes'', ''limitations'', ''symptoms''] \<and>
   score_keys @ [''notes''] =
     [''flexibility'', ''strength'', ''balance'', ''pain'', ''posture'', ''breathing'', ''spine'',
      ''hips'', ''shoulders'', ''core'', ''stress'', ''energy'', ''focus'', ''sleep'', ''anxiety'',
      ''mood'', ''mindfulness'', ''notes'']"
proof -
  have b: "ss_before_data (w_session (snd (save_before_assessment v w))) =
      dict_update (ss_before_data (w_session w)) (before_update v)"
    and b': "ss_after_data (w_session (snd (save_before_assessment v w))) = ss_after_data (w_session w)"
      "ss_client_info (w_session (snd (save_before_assessment v w))) = ss_client_info (w_session w)"
    by (simp_all add: save_before_assessment_def display_def)
  have a: "ss_after_data (w_session (snd (save_after_assessment v' w))) =
      dict_update (ss_after_data (w_session w)) (after_update v')"
    and a': "ss_before_data (w_session (snd (save_after_assessment v' w))) = ss_before_data (w_session w)"
      "ss_client_info (w_session (snd (save_after_assessment v' w))) = ss_client_info (w_session w)"
    by (simp_all add: save_after_assessment_def display_def)
  have k1: "score_and_text_keys =
     [''flexibility'', ''strength'', ''balance'', ''pain'', ''posture'', ''breathing'', ''spine'',
      ''hips'', ''shoulders'', ''core'', ''stress'', ''energy'', ''focus'', ''sleep'', ''anxiety'',
      ''mood'', ''mindfulness'', ''notes'', ''limitations'', ''symptoms'']"
    and k2: "score_keys @ [''notes''] =
     [''flexibility'', ''strength'', ''balance'', ''pain'', ''posture'', ''breathing'', ''spine'',
      ''hips'', ''shoulders'', ''core'', ''stress'', ''energy'', ''focus'', ''sleep'', ''anxiety'',
      ''mood'', ''mindfulness'', ''notes'']"
    by (simp_all add: score_and_text_keys_def score_keys_def physical_fields_def mental_fields_def)
  have l: "ss_after_data (w_session (snd (save_after_assessment v' w))) ''limitations'' =
     ss_after_data (w_session w) ''limitations''"
    "ss_after_data (w_session (snd (save_after_assessment v' w))) ''symptoms'' =
     ss_after_data (w_session w) ''symptoms''"
    unfolding a dict_update_apply after_update_keys k2 by simp_all
  show ?thesis
    unfolding b b' a' l
    by (simp add: a dict_update_apply before_update_keys after_update_keys k1[symmetric]
        k2[symmetric])
qed

lemma display_screen: "w_screen (display u w) = w_screen w @ [u]"
  and display_sent: "w_sent (display u w) = w_sent w"
  and display_session: "w_session (display u w) = w_session w"
  by (simp_all add: display_def)

lemma analysis_body_screen:
  "\<exists>evs. w_screen (snd (analysis_body lib g ci w)) = w_screen w @ evs \<and>
     list_all (\<lambda>u. \<not> is_error u) evs \<and> evs \<noteq> [] \<and>
     hd evs = St_spinner (lit ''Generating your progress report...'')"
  by (auto simp: analysis_body_def Let_def display_def is_error_def
      split: sum.splits prod.splits)

lemma please_complete_differs: "lit ''An error occurred: '' @ m \<noteq> please_complete"
  by (simp add: please_complete_def lit_def)


lemma readable_has_scores:
  "list_all (readable (arguments ci b a)) analysis_template \<Longrightarrow>
     has_keys b score_keys \<and> has_keys a score_keys"
  by (simp add: analysis_template_def readable_def arguments_def has_keys_def score_keys_eq)

lemma charts_built:
  "has_keys b score_keys \<Longrightarrow> has_keys a score_keys \<Longrightarrow>
     \<exists>fig1 fig2. create_comparison_charts b a = Inr (fig1, fig2)"
  by (simp add: create_comparison_charts_def physical_metrics_eq mental_metrics_eq bindE_def)

lemma analysis_body_sent:
  assumes "create_comparison_charts (ss_before_data (w_session w)) (ss_after_data (w_session w)) =
      Inr (fig1, fig2)"
    and "analysis_prompt lib (ss_before_data (w_session w)) (ss_after_data (w_session w)) ci = Inr p"
  shows "w_sent (snd (analysis_body lib g ci w)) = w_sent w @ [completion_request p]"
  using assms
  by (auto simp: analysis_body_def Let_def display_def generate_analysis_def send_prompt_Inr
      split: sum.splits prod.splits)

lemma try_except_sent:
  "w_sent (snd (try_except r (\<lambda>e w'. (None, display (u e) w')))) = w_sent (snd r)"
  by (cases r) (auto simp: try_except_def display_def split: option.splits)

lemma button_incomplete:
  "incomplete w \<Longrightarrow> generate_analysis_button lib g ci w = (None, display (St_error please_complete) w)"
  by (simp add: generate_analysis_button_def)

lemma button_complete_shown:
  assumes "\<not> incomplete w"
  shows "St_error please_complete \<notin> set (shown w (generate_analysis_button lib g ci w))"
    and "hd (shown w (generate_analysis_button lib g ci w)) =
      St_spinner (lit ''Generating your progress report...'')"
proof -
  obtain evs where evs: "w_screen (snd (analysis_body lib g ci w)) = w_screen w @ evs"
      "list_all (\<lambda>u. \<not> is_error u) evs" "evs \<noteq> []"
      "hd evs = St_spinner (lit ''Generating your progress report...'')"
    using analysis_body_screen by blast
  obtain r w' where b: "analysis_body lib g ci w = (r, w')"
    by (cases "analysis_body lib g ci w")
  have "shown w (generate_analysis_button lib g ci w) = evs \<or>
      (\<exists>m. shown w (generate_analysis_button lib g ci w) =
         evs @ [St_error (lit ''An error occurred: '' @ m)])"
    using assms evs(1) b
    by (cases r) (auto simp: generate_analysis_button_def try_except_def shown_def display_def)
  moreover have "St_error please_complete \<notin> set evs"
    using evs(2) by (auto simp: list_all_iff is_error_def)
  ultimately show "St_error please_complete \<notin> set (shown w (generate_analysis_button lib g ci w))"
    using please_complete_differs[symmetric] by auto
  from \<open>shown w (generate_analysis_button lib g ci w) = evs \<or> _\<close> evs(3,4)
  show "hd (shown w (generate_analysis_button lib g ci w)) =
      St_spinner (lit ''Generating your progress report...'')"
    by auto
qed

text \<open>
  C9: the Generate Analysis handler shows the error "Please complete and save both
  before and after assessments first!" if and only if the \<open>flexibility\<close> entries of
  \<open>before_data\<close> and of \<open>after_data\<close> are both false (missing or zero); it then does
  nothing else, whatever the other fields hold. Otherwise it starts the generation, and
  on readable records it sends the completion request.
\<close>

theorem completeness_check_on_flexibility:
  "(St_error please_complete \<in> set (shown w (generate_analysis_button lib g ci w)) \<longleftrightarrow>
      \<not> truthy_opt (ss_before_data (w_session w) ''flexibility'') \<and>
      \<not> truthy_opt (ss_after_data (w_session w) ''flexibility'')) \<and>
   (if \<not> truthy_opt (ss_before_data (w_session w) ''flexibility'') \<and>
       \<not> truthy_opt (ss_after_data (w_session w) ''flexibility'')
    then generate_analysis_button lib g ci w = (None, display (St_error please_complete) w)
    else hd (shown w (generate_analysis_button lib g ci w)) =
           St_spinner (lit ''Generating your progress report...'')) \<and>
   ((truthy_opt (ss_before_data (w_session w) ''flexibility'') \<or>
     truthy_opt (ss_after_data (w_session w) ''flexibility'')) \<and>
    list_all (readable (arguments ci (ss_before_data (w_session w)) (ss_after_data (w_session w))))
      analysis_template \<longrightarrow>
      (\<exists>prompt. analysis_prompt lib (ss_before_data (w_session w)) (ss_after_data (w_session w)) ci =
           Inr prompt \<and>
         w_sent (snd (generate_analysis_button lib g ci w)) = w_sent w @ [completion_request prompt])) \<and>
   truthy_opt None = False \<and> truthy_opt (Some (PInt n)) = (n \<noteq> 0)"
proof (intro conjI impI)
  show "St_error please_complete \<in> set (shown w (generate_analysis_button lib g ci w)) \<longleftrightarrow>
      \<not> truthy_opt (ss_before_data (w_session w) ''flexibility'') \<and>
      \<not> truthy_opt (ss_after_data (w_session w) ''flexibility'')"
  proof (cases "incomplete w")
    case True
    then show ?thesis
      by (simp add: button_incomplete shown_def display_def) (simp add: incomplete_def)
  next
    case False
    with button_complete_shown(1)[OF False] show ?thesis
      by (simp add: incomplete_def)
  qed
  show "if \<not> truthy_opt (ss_before_data (w_session w) ''flexibility'') \<and>
       \<not> truthy_opt (ss_after_data (w_session w) ''flexibility'')
    then generate_analysis_button lib g ci w = (None, display (St_error please_complete) w)
    else hd (shown w (generate_analysis_button lib g ci w)) =
           St_spinner (lit ''Generating your progress report...'')"
    using button_incomplete[of w lib g ci] button_complete_shown(2)[of w lib g ci]
    by (auto simp: incomplete_def)
next
  assume h: "(truthy_opt (ss_before_data (w_session w) ''flexibility'') \<or>
     truthy_opt (ss_after_data (w_session w) ''flexibility'')) \<and>
    list_all (readable (arguments ci (ss_before_data (w_session w)) (ss_after_data (w_session w))))
      analysis_template"
  then have nc: "\<not> incomplete w" by (auto simp: incomplete_def)
  from h obtain p where p: "analysis_prompt lib (ss_before_data (w_session w))
      (ss_after_data (w_session w)) ci = Inr p"
    unfolding analysis_prompt_def using fstring_readable by blast
  from h obtain fig1 fig2 where
    "create_comparison_charts (ss_before_data (w_session w)) (ss_after_data (w_session w)) =
       Inr (fig1, fig2)"
    using readable_has_scores charts_built by blast
  from analysis_body_sent[OF this p]
  have "w_sent (snd (generate_analysis_button lib g ci w)) = w_sent w @ [completion_request p]"
    using nc by (simp add: generate_analysis_button_def try_except_sent)
  with p show "\<exists>prompt. analysis_prompt lib (ss_before_data (w_session w))
        (ss_after_data (w_session w)) ci = Inr prompt \<and>
      w_sent (snd (generate_analysis_button lib g ci w)) = w_sent w @ [completion_request prompt]"
    by blast
qed (simp_all add: truthy_opt_def truthy_def)

lemma sample_readable_zero:
  "list_all (readable (arguments main_client_info (sample_before(''flexibility'' \<mapsto> PInt 0))
      sample_after)) analysis_template"
  by (simp add: analysis_template_def readable_def arguments_def main_client_info_def
      sample_before_def sample_after_def)

theorem completeness_check_on_flexibility_witness:
  "generate_analysis_button test_library (Groq (PStr (lit ''gsk''))) main_client_info
       (sample_world (sample_before(''flexibility'' \<mapsto> PInt 0))
          (sample_after(''flexibility'' \<mapsto> PInt 0))) =
     (None, display (St_error please_complete)
        (sample_world (sample_before(''flexibility'' \<mapsto> PInt 0))
           (sample_after(''flexibility'' \<mapsto> PInt 0)))) \<and>
   truthy_opt (ss_after_data (w_session
       (sample_world (sample_before(''flexibility'' \<mapsto> PInt 0)) sample_after)) ''flexibility'') \<and>
   list_all (readable (arguments main_client_info (sample_before(''flexibility'' \<mapsto> PInt 0))
      sample_after)) analysis_template \<and>
   length (w_sent (snd (generate_analysis_button test_library (Groq (PStr (lit ''gsk'')))
       main_client_info (sample_world (sample_before(''flexibility'' \<mapsto> PInt 0)) sample_after)))) = 1 \<and>
   St_error please_complete \<notin> set (shown
       (sample_world (sample_before(''flexibility'' \<mapsto> PInt 0)) sample_after)
       (generate_analysis_button test_library (Groq (PStr (lit ''gsk''))) main_client_info
         (sample_world (sample_before(''flexibility'' \<mapsto> PInt 0)) sample_after)))"
proof -
  let ?g = "Groq (PStr (lit ''gsk''))"
  let ?rej = "sample_world (sample_before(''flexibility'' \<mapsto> PInt 0))
          (sample_after(''flexibility'' \<mapsto> PInt 0))"
  let ?ok = "sample_world (sample_before(''flexibility'' \<mapsto> PInt 0)) sample_after"
  have t: "truthy_opt (ss_after_data (w_session ?ok) ''flexibility'')"
    by (simp add: sample_world_def sample_after_def truthy_opt_def truthy_def)
  have f: "\<not> truthy_opt (ss_before_data (w_session ?rej) ''flexibility'')"
      "\<not> truthy_opt (ss_after_data (w_session ?rej) ''flexibility'')"
    by (simp_all add: sample_world_def truthy_opt_def truthy_def)
  have s: "ss_before_data (w_session ?ok) = sample_before(''flexibility'' \<mapsto> PInt 0)"
      "ss_after_data (w_session ?ok) = sample_after" "w_sent ?ok = []"
    by (simp_all add: sample_world_def)
  note r = sample_readable_zero
  note rej = completeness_check_on_flexibility[of ?rej test_library ?g main_client_info]
  note ok = completeness_check_on_flexibility[of ?ok test_library ?g main_client_info]
  from rej[THEN conjunct2, THEN conjunct1] f
  have 1: "generate_analysis_button test_library ?g main_client_info ?rej =
     (None, display (St_error please_complete) ?rej)"
    by (simp only: simp_thms if_True)
  have r': "list_all (readable (arguments main_client_info (ss_before_data (w_session ?ok))
      (ss_after_data (w_session ?ok)))) analysis_template"
    unfolding s by (rule r)
  have "\<exists>prompt. analysis_prompt test_library (ss_before_data (w_session ?ok))
        (ss_after_data (w_session ?ok)) main_client_info = Inr prompt \<and>
      w_sent (snd (generate_analysis_button test_library ?g main_client_info ?ok)) =
        w_sent ?ok @ [completion_request prompt]"
    by (rule ok[THEN conjunct2, THEN conjunct2, THEN conjunct1, THEN mp])
      (intro conjI disjI2 t r')
  then obtain prompt where
    "w_sent (snd (generate_analysis_button test_library ?g main_client_info ?ok)) =
        w_sent ?ok @ [completion_request prompt]"
    by (elim exE conjE)
  then have 2: "length (w_sent (snd (generate_analysis_button test_library ?g main_client_info ?ok))) = 1"
    by (simp only: s append_Nil list.size)
  from ok[THEN conjunct1] t
  have 3: "St_error please_complete \<notin> set (shown ?ok
       (generate_analysis_button test_library ?g main_client_info ?ok))"
    by (simp only: simp_thms not_False_eq_True)
  from 1 t r 2 3 show ?thesis by (intro conjI)
qed
















lemma try_body_caught:
  "try_except (Some e, w') (\<lambda>e w'. st_call pg (u e) w') = st_call pg (u e) w'"
  by (simp add: try_except_def)




end
